theory Spec2Isabelle
  imports Complex_Main
begin

section \<open>Python text and float primitives used by the scripts\<close>

text \<open>
  Text is a list of characters. The scripts read ASCII files; the character classes below
  are Python's \<open>str.isspace\<close> and \<open>\d\<close> restricted to ASCII.
\<close>

definition is_space :: "char \<Rightarrow> bool" where
  "is_space c \<longleftrightarrow>
     (let n = (of_char c :: nat) in (9 \<le> n \<and> n \<le> 13) \<or> (28 \<le> n \<and> n \<le> 32))"

definition is_digit :: "char \<Rightarrow> bool" where
  "is_digit c \<longleftrightarrow> (let n = (of_char c :: nat) in 48 \<le> n \<and> n \<le> 57)"

definition digit_val :: "char \<Rightarrow> nat" where
  "digit_val c = (of_char c :: nat) - 48"

text \<open>\<open>str.lower\<close> on ASCII letters.\<close>

definition lower_char :: "char \<Rightarrow> char" where
  "lower_char c =
     (let n = (of_char c :: nat) in if 65 \<le> n \<and> n \<le> 90 then char_of (n + 32) else c)"

definition lower :: "string \<Rightarrow> string" where
  "lower s = map lower_char s"

text \<open>\<open>str.strip()\<close>: whitespace removed at both ends.\<close>

definition strip :: "string \<Rightarrow> string" where
  "strip s = rev (dropWhile is_space (rev (dropWhile is_space s)))"

text \<open>\<open>str.split()\<close> without argument: the maximal runs of non-whitespace characters.\<close>

function split :: "string \<Rightarrow> string list" where
  "split s =
     (case dropWhile is_space s of
        [] \<Rightarrow> []
      | c # cs \<Rightarrow>
          takeWhile (\<lambda>x. \<not> is_space x) (c # cs) # split (dropWhile (\<lambda>x. \<not> is_space x) (c # cs)))"
  by pat_completeness auto
termination
proof (relation "measure length")
  show "wf (measure length)" by simp
next
  fix s :: string and c cs
  assume a: "dropWhile is_space s = c # cs"
  have nsp: "\<not> is_space c"
    using a hd_dropWhile [of is_space s] by auto
  have "length (dropWhile (\<lambda>x. \<not> is_space x) (c # cs)) \<le> length cs"
    using nsp by (simp add: length_dropWhile_le)
  also have "\<dots> < length (c # cs)" by simp
  also have "\<dots> \<le> length s"
    using a length_dropWhile_le [of is_space s] by simp
  finally show "(dropWhile (\<lambda>x. \<not> is_space x) (c # cs), s) \<in> measure length"
    by simp
qed

declare split.simps [simp del]

text \<open>The operator \<open>sub in s\<close> on strings.\<close>

fun contains :: "string \<Rightarrow> string \<Rightarrow> bool" where
  "contains sub [] = (sub = [])"
| "contains sub (c # cs) = (take (length sub) (c # cs) = sub \<or> contains sub cs)"

text \<open>\<open>s.replace('\\', '')\<close>: every backslash removed.\<close>

definition remove_backslash :: "string \<Rightarrow> string" where
  "remove_backslash s = filter (\<lambda>c. c \<noteq> CHR 0x5C) s"

text \<open>
  \<open>f.readlines()\<close> on text already decoded with universal newlines: the text is cut after
  each newline, and every line but possibly the last keeps its newline.
\<close>

fun readlines_acc :: "string \<Rightarrow> string \<Rightarrow> string list" where
  "readlines_acc cur [] = (if cur = [] then [] else [rev cur])"
| "readlines_acc cur (c # cs) =
     (if c = CHR 0x0A then rev (c # cur) # readlines_acc [] cs
      else readlines_acc (c # cur) cs)"

definition readlines :: "string \<Rightarrow> string list" where
  "readlines s = readlines_acc [] s"

subsection \<open>Floats\<close>

text \<open>
  A Python float is modelled by the real number it denotes, or one of the special values.
  Rounding to binary64 is not modelled; overflow to an infinity is, since the special
  values change the outcome of comparisons.
\<close>

datatype pyfloat = Fin real | PInf | NInf | NaN

definition DBL_OVERFLOW :: real where
  "DBL_OVERFLOW = 2 ^ 1024 - 2 ^ 970"

definition of_real_ovf :: "real \<Rightarrow> pyfloat" where
  "of_real_ovf x =
     (if DBL_OVERFLOW \<le> x then PInf else if x \<le> - DBL_OVERFLOW then NInf else Fin x)"

fun fneg :: "pyfloat \<Rightarrow> pyfloat" where
  "fneg (Fin x) = Fin (- x)"
| "fneg PInf = NInf"
| "fneg NInf = PInf"
| "fneg NaN = NaN"

fun fadd :: "pyfloat \<Rightarrow> pyfloat \<Rightarrow> pyfloat" where
  "fadd NaN _ = NaN"
| "fadd _ NaN = NaN"
| "fadd (Fin x) (Fin y) = of_real_ovf (x + y)"
| "fadd PInf NInf = NaN"
| "fadd NInf PInf = NaN"
| "fadd PInf _ = PInf"
| "fadd NInf _ = NInf"
| "fadd _ PInf = PInf"
| "fadd _ NInf = NInf"

definition fsub :: "pyfloat \<Rightarrow> pyfloat \<Rightarrow> pyfloat" where
  "fsub a b = fadd a (fneg b)"

fun fabs :: "pyfloat \<Rightarrow> pyfloat" where
  "fabs (Fin x) = Fin \<bar>x\<bar>"
| "fabs PInf = PInf"
| "fabs NInf = PInf"
| "fabs NaN = NaN"

text \<open>Division by the constant 2, as in the path midpoint.\<close>

fun fhalf :: "pyfloat \<Rightarrow> pyfloat" where
  "fhalf (Fin x) = Fin (x / 2)"
| "fhalf v = v"

text \<open>The comparisons \<open><\<close> and \<open>>=\<close>: false as soon as one side is NaN.\<close>

fun flt :: "pyfloat \<Rightarrow> pyfloat \<Rightarrow> bool" where
  "flt (Fin x) (Fin y) = (x < y)"
| "flt (Fin x) PInf = True"
| "flt NInf (Fin y) = True"
| "flt NInf PInf = True"
| "flt _ _ = False"

definition fge :: "pyfloat \<Rightarrow> pyfloat \<Rightarrow> bool" where
  "fge a b \<longleftrightarrow> a = b \<and> a \<noteq> NaN \<or> flt b a"

text \<open>
  The order in which numpy sorts floats: the usual order, with every NaN after all
  numbers.
\<close>

definition sort_le :: "pyfloat \<Rightarrow> pyfloat \<Rightarrow> bool" where
  "sort_le a b \<longleftrightarrow> b = NaN \<or> (a \<noteq> NaN \<and> fge b a)"

subsection \<open>The built-in \<open>float()\<close> on strings\<close>

text \<open>
  \<open>float(s)\<close> strips whitespace and accepts an optional sign followed by \<open>inf\<close>,
  \<open>infinity\<close> or \<open>nan\<close> in any case, or by a decimal number
  \<open>[digitpart] "." digitpart | digitpart ["."]\<close> with an optional exponent, where
  \<open>digitpart\<close> is digits with single underscores between them. Any other string raises
  ValueError, which is the value \<open>None\<close> here.
\<close>

definition is_digit_us :: "char \<Rightarrow> bool" where
  "is_digit_us c \<longleftrightarrow> is_digit c \<or> c = CHR ''_''"

fun valid_digitpart :: "string \<Rightarrow> bool" where
  "valid_digitpart [] = False"
| "valid_digitpart [c] = is_digit c"
| "valid_digitpart (c # d # cs) =
     (is_digit c \<and> (if d = CHR ''_'' then valid_digitpart cs else valid_digitpart (d # cs)))"

definition nat_of_digits :: "string \<Rightarrow> nat" where
  "nat_of_digits s = foldl (\<lambda>a c. 10 * a + digit_val c) 0 (filter is_digit s)"

text \<open>The sign in front of a number: whether it is negative, and the rest.\<close>

definition take_sign :: "string \<Rightarrow> bool \<times> string" where
  "take_sign s =
     (case s of
        [] \<Rightarrow> (False, s)
      | c # r \<Rightarrow> if c = CHR ''-'' then (True, r) else if c = CHR ''+'' then (False, r)
                 else (False, s))"

text \<open>The exponent part: empty, or \<open>e\<close>/\<open>E\<close>, an optional sign and a digitpart.\<close>

definition parse_exponent :: "string \<Rightarrow> int option" where
  "parse_exponent s =
     (case s of
        [] \<Rightarrow> Some 0
      | c # r \<Rightarrow>
          if c = CHR ''e'' \<or> c = CHR ''E'' then
            (let (neg, ds) = take_sign r in
             if valid_digitpart ds
             then Some (if neg then - int (nat_of_digits ds) else int (nat_of_digits ds))
             else None)
          else None)"

text \<open>A decimal number as mantissa and power of ten.\<close>

definition parse_number :: "string \<Rightarrow> (nat \<times> int) option" where
  "parse_number s =
     (let ip = takeWhile is_digit_us s;
          r1 = dropWhile is_digit_us s;
          has_dot = (r1 \<noteq> [] \<and> hd r1 = CHR ''.'');
          fp = (if has_dot then takeWhile is_digit_us (tl r1) else []);
          r2 = (if has_dot then dropWhile is_digit_us (tl r1) else r1)
      in if (ip = [] \<or> valid_digitpart ip) \<and> (fp = [] \<or> valid_digitpart fp)
            \<and> (ip \<noteq> [] \<or> fp \<noteq> [])
         then (case parse_exponent r2 of
                 None \<Rightarrow> None
               | Some e \<Rightarrow>
                   Some (nat_of_digits (ip @ fp), e - int (length (filter is_digit fp))))
         else None)"

definition scale10 :: "nat \<Rightarrow> int \<Rightarrow> real" where
  "scale10 m e = (if 0 \<le> e then real m * 10 ^ nat e else real m / 10 ^ nat (- e))"

definition py_float :: "string \<Rightarrow> pyfloat option" where
  "py_float s =
     (let (neg, body) = take_sign (strip s) in
      if lower body = ''inf'' \<or> lower body = ''infinity''
      then Some (if neg then NInf else PInf)
      else if lower body = ''nan'' then Some NaN
      else (case parse_number body of
              None \<Rightarrow> None
            | Some (m, e) \<Rightarrow>
                Some (of_real_ovf (if neg then - scale10 m e else scale10 m e))))"

subsection \<open>Errors, files and arrays\<close>

text \<open>The exceptions that can leave the modelled code.\<close>

datatype py_error = IndexError | ValueError | TypeError | OSError

text \<open>
  What a path names: nothing, a directory, a file that cannot be opened or decoded, or a
  text file with its decoded content.
\<close>

datatype path_state = Missing | Directory | Unreadable | Text string

type_synonym filesystem = "string \<Rightarrow> path_state"

definition path_exists :: "filesystem \<Rightarrow> string \<Rightarrow> bool" where
  "path_exists fs p \<longleftrightarrow> fs p \<noteq> Missing"

text \<open>\<open>open(p, 'r')\<close> followed by reading the whole file.\<close>

definition read_text :: "filesystem \<Rightarrow> string \<Rightarrow> py_error + string" where
  "read_text fs p = (case fs p of Text s \<Rightarrow> Inr s | _ \<Rightarrow> Inl OSError)"

text \<open>
  What \<open>np.loadtxt\<close> returns: a one-dimensional array (for a table with a single row or a
  single column, or no row at all), or a two-dimensional one, given by its number of
  columns and its rows.
\<close>

datatype ndarray = Array1 "pyfloat list" | Array2 nat "pyfloat list list"

text \<open>\<open>a[:, j]\<close>: IndexError on a one-dimensional array and on a column that is not there.\<close>

definition column :: "ndarray \<Rightarrow> nat \<Rightarrow> py_error + pyfloat list" where
  "column a j =
     (case a of
        Array1 _ \<Rightarrow> Inl IndexError
      | Array2 ncols rows \<Rightarrow>
          if j < ncols then Inr (map (\<lambda>r. r ! j) rows) else Inl IndexError)"

text \<open>\<open>a[:, 1:]\<close>.\<close>

definition columns_from_1 :: "ndarray \<Rightarrow> py_error + pyfloat list list" where
  "columns_from_1 a =
     (case a of
        Array1 _ \<Rightarrow> Inl IndexError
      | Array2 ncols rows \<Rightarrow> Inr (map (drop 1) rows))"

text \<open>
  A slice \<open>xs[a:b]\<close> with integer bounds: a negative bound counts from the end, and both
  are clamped to the list.
\<close>

definition slice_bound :: "nat \<Rightarrow> int \<Rightarrow> nat" where
  "slice_bound n i = (if i < 0 then nat (max 0 (int n + i)) else min n (nat i))"

definition slice :: "'a list \<Rightarrow> int \<Rightarrow> int \<Rightarrow> 'a list" where
  "slice xs a b =
     take (slice_bound (length xs) b - slice_bound (length xs) a)
          (drop (slice_bound (length xs) a) xs)"

text \<open>
  \<open>np.argmin\<close> on floats: the first NaN if there is one, else the first minimum;
  ValueError on an empty array. The loop keeps the current minimum \<open>mp\<close> and its index.
\<close>

fun argmin_loop :: "pyfloat \<Rightarrow> nat \<Rightarrow> nat \<Rightarrow> pyfloat list \<Rightarrow> nat" where
  "argmin_loop mp min_ind i [] = min_ind"
| "argmin_loop mp min_ind i (x # xs) =
     (if \<not> fge x mp then (if x = NaN then i else argmin_loop x i (Suc i) xs)
      else argmin_loop mp min_ind (Suc i) xs)"

definition np_argmin :: "pyfloat list \<Rightarrow> py_error + nat" where
  "np_argmin xs =
     (case xs of
        [] \<Rightarrow> Inl ValueError
      | x # r \<Rightarrow> if x = NaN then Inr 0 else Inr (argmin_loop x 0 1 r))"

text \<open>
  \<open>np.argsort\<close>: the indices in the order of their keys. The default sort of numpy is
  not stable, so the order of indices with equal keys is not fixed by numpy; here they
  stay in increasing order.
\<close>

fun insert_index :: "pyfloat list \<Rightarrow> nat \<Rightarrow> nat list \<Rightarrow> nat list" where
  "insert_index keys i [] = [i]"
| "insert_index keys i (j # js) =
     (if sort_le (keys ! i) (keys ! j) then i # j # js else j # insert_index keys i js)"

definition np_argsort :: "pyfloat list \<Rightarrow> nat list" where
  "np_argsort keys = foldr (insert_index keys) [0..<length keys] []"

text \<open>\<open>np.diff\<close> and \<open>np.abs\<close> on a one-dimensional array.\<close>

fun np_diff :: "pyfloat list \<Rightarrow> pyfloat list" where
  "np_diff (x # y # xs) = fsub y x # np_diff (y # xs)"
| "np_diff _ = []"

definition np_abs :: "pyfloat list \<Rightarrow> pyfloat list" where
  "np_abs xs = map fabs xs"

section \<open>BAND/Dirac.py (and the same \<open>read_klabels\<close> in BAND/Function.py)\<close>

datatype dirac_msg =
    Warn_klabels_not_found
  | Error_reading_klabels
  | Warn_no_sym_points
  | Warn_k_label_not_found
  | Print_dirac_bands "nat list"

subsection \<open>\<open>read_klabels\<close>\<close>

text \<open>The header test on the first line.\<close>

definition header_start :: "string list \<Rightarrow> nat" where
  "header_start lines =
     (if lines \<noteq> [] \<and> (contains ''K-Label'' (hd lines) \<or> contains ''Coordinate'' (hd lines))
      then 1 else 0)"

text \<open>The test for one empty line at \<open>start_index\<close>.\<close>

definition skip_blank :: "string list \<Rightarrow> nat \<Rightarrow> nat" where
  "skip_blank lines start_index =
     (if start_index < length lines \<and> strip (lines ! start_index) = []
      then start_index + 1 else start_index)"

text \<open>
  The loop over the data lines, with the two result lists that it appends to. A
  ValueError of \<open>float\<close> is caught in the loop: the line is left out.
\<close>

fun klabels_loop ::
  "string list \<Rightarrow> pyfloat list \<times> string list \<Rightarrow> pyfloat list \<times> string list" where
  "klabels_loop [] (sym_points, labels) = (sym_points, labels)"
| "klabels_loop (line # rest) (sym_points, labels) =
     (if strip line = [] then klabels_loop rest (sym_points, labels)
      else
        let parts = split line in
        if 2 \<le> length parts then
          (let label = remove_backslash (hd parts) in
           case py_float (last parts) of
             Some coord \<Rightarrow> klabels_loop rest (sym_points @ [coord], labels @ [label])
           | None \<Rightarrow> klabels_loop rest (sym_points, labels))
        else klabels_loop rest (sym_points, labels))"

text \<open>The body of the \<open>with\<close> block, on the lines that \<open>readlines\<close> has returned.\<close>

definition klabels_of_lines :: "string list \<Rightarrow> pyfloat list \<times> string list" where
  "klabels_of_lines lines =
     (let start_index = skip_blank lines (header_start lines)
      in klabels_loop (drop start_index lines) ([], []))"

text \<open>
  The function returns \<open>(sym_points, labels)\<close> and what it printed. Any exception in
  opening or reading the file is caught and reported; the lists are still empty then.
\<close>

definition read_klabels ::
  "filesystem \<Rightarrow> string \<Rightarrow> (pyfloat list \<times> string list) \<times> dirac_msg list" where
  "read_klabels fs filename =
     (if \<not> path_exists fs filename then (([], []), [Warn_klabels_not_found])
      else
        case read_text fs filename of
          Inl e \<Rightarrow> (([], []), [Error_reading_klabels])
        | Inr content \<Rightarrow> (klabels_of_lines (readlines content), []))"

subsection \<open>\<open>analyze_dirac_cone\<close>, up to the choice of the bands\<close>

definition is_k_label :: "string \<Rightarrow> bool" where
  "is_k_label label \<longleftrightarrow>
     lower label \<in> set [''k'', ''k$'', [CHR ''k'', CHR 0x5C], ''k1'', ''k2'']"

fun first_k_index :: "nat \<Rightarrow> string list \<Rightarrow> nat option" where
  "first_k_index i [] = None"
| "first_k_index i (label # rest) =
     (if is_k_label label then Some i else first_k_index (Suc i) rest)"

text \<open>The target position on the path: from the labels, or the midpoint of the path.\<close>

definition k_position_of ::
  "pyfloat list \<Rightarrow> string list \<Rightarrow> pyfloat list \<Rightarrow> py_error + (pyfloat \<times> dirac_msg list)" where
  "k_position_of sym_points labels k_points =
     (if sym_points = [] then
        (if k_points = [] then Inl IndexError
         else Inr (fhalf (fadd (hd k_points) (last k_points)), [Warn_no_sym_points]))
      else
        let (k_index, out) =
              (case first_k_index 0 labels of
                 Some i \<Rightarrow> (i, [])
               | None \<Rightarrow> (length sym_points div 2, [Warn_k_label_not_found]))
        in if k_index < length sym_points then Inr (sym_points ! k_index, out)
           else Inl IndexError)"

text \<open>\<open>np.argmin(np.abs(k_points - k_position))\<close>.\<close>

definition nearest_index :: "pyfloat list \<Rightarrow> pyfloat \<Rightarrow> py_error + nat" where
  "nearest_index k_points k_position =
     np_argmin (np_abs (map (\<lambda>k. fsub k k_position) k_points))"

definition window :: int where
  "window = 50"

definition start_idx_of :: "nat \<Rightarrow> int" where
  "start_idx_of k_index_band = max 0 (int k_index_band - window)"

definition end_idx_of :: "nat \<Rightarrow> nat \<Rightarrow> int" where
  "end_idx_of len_k_points k_index_band = min (int len_k_points) (int k_index_band + window)"

text \<open>
  \<open>np.argsort(np.abs(band_energies_at_k - fermi_energy))[:2]\<close> with \<open>fermi_energy = 0\<close>.
\<close>

definition fermi_energy_dirac :: pyfloat where
  "fermi_energy_dirac = Fin 0"

definition band_keys :: "pyfloat list \<Rightarrow> pyfloat list" where
  "band_keys band_energies_at_k =
     np_abs (map (\<lambda>e. fsub e fermi_energy_dirac) band_energies_at_k)"

definition select_dirac_bands :: "pyfloat list \<Rightarrow> nat list" where
  "select_dirac_bands band_energies_at_k = take 2 (np_argsort (band_keys band_energies_at_k))"

record dirac_result =
  k_position :: pyfloat
  k_index_band :: nat
  start_idx :: int
  end_idx :: int
  k_window :: "pyfloat list"
  e_window :: "pyfloat list list"
  dirac_bands :: "nat list"

text \<open>
  The function on the array that \<open>np.loadtxt\<close> has read from the band file; the plot and
  the later orbital analysis are left out.
\<close>

definition analyze_dirac_cone ::
  "filesystem \<Rightarrow> ndarray \<Rightarrow> py_error + (dirac_result \<times> dirac_msg list)" where
  "analyze_dirac_cone fs band_data =
     (case column band_data 0 of
        Inl e \<Rightarrow> Inl e
      | Inr k_points \<Rightarrow>
     (case columns_from_1 band_data of
        Inl e \<Rightarrow> Inl e
      | Inr energies \<Rightarrow>
     (let ((sym_points, labels), out1) = read_klabels fs ''KLABELS'' in
      case k_position_of sym_points labels k_points of
        Inl e \<Rightarrow> Inl e
      | Inr (k_pos, out2) \<Rightarrow>
     (case nearest_index k_points k_pos of
        Inl e \<Rightarrow> Inl e
      | Inr k_idx \<Rightarrow>
     (let start = start_idx_of k_idx;
          stop = end_idx_of (length k_points) k_idx
      in if k_idx < length energies then
           (let bands = select_dirac_bands (energies ! k_idx) in
            Inr (\<lparr> k_position = k_pos, k_index_band = k_idx,
                   start_idx = start, end_idx = stop,
                   k_window = slice k_points start stop,
                   e_window = slice energies start stop,
                   dirac_bands = bands \<rparr>,
                 out1 @ out2 @ [Print_dirac_bands bands]))
         else Inl IndexError)))))"

section \<open>Optimization_ENCUT/ENCUT_TEST.py\<close>

datatype encut_msg =
    Print_energy nat pyfloat
  | Print_outcar_not_found nat
  | Print_converged nat
  | Print_not_converged

text \<open>\<open>str(n)\<close> for a natural number, as the f-string of the path formats it.\<close>

fun str_of_nat :: "nat \<Rightarrow> string" where
  "str_of_nat n =
     (if n < 10 then [char_of (48 + n)]
      else str_of_nat (n div 10) @ [char_of (48 + n mod 10)])"

declare str_of_nat.simps [simp del]

definition toten_marker :: string where
  "toten_marker = ''free  energy   TOTEN''"

text \<open>
  The loop of \<open>extract_energy_from_outcar\<close> over the lines of the file: at the first line
  with the marker, \<open>float(parts[4])\<close> is the energy (IndexError and ValueError are not
  caught); without such a line the result is \<open>None\<close>.
\<close>

fun extract_energy_lines :: "string list \<Rightarrow> py_error + pyfloat option" where
  "extract_energy_lines [] = Inr None"
| "extract_energy_lines (line # rest) =
     (if contains toten_marker line then
        (let parts = split line in
         if 4 < length parts then
           (case py_float (parts ! 4) of
              None \<Rightarrow> Inl ValueError
            | Some energy \<Rightarrow> Inr (Some energy))
         else Inl IndexError)
      else extract_energy_lines rest)"

definition extract_energy_from_outcar ::
  "filesystem \<Rightarrow> string \<Rightarrow> py_error + pyfloat option" where
  "extract_energy_from_outcar fs outcar_path =
     (case read_text fs outcar_path of
        Inl e \<Rightarrow> Inl e
      | Inr content \<Rightarrow> extract_energy_lines (readlines content))"

definition encut_values :: "nat list" where
  "encut_values = [200, 250, 300, 350, 400, 450, 500, 550]"

definition encut_outcar_path :: "nat \<Rightarrow> string" where
  "encut_outcar_path encut = ''Encut_'' @ str_of_nat encut @ ''/OUTCAR''"

text \<open>
  The loop over the cutoffs, with the list \<open>energies\<close> and the printed lines. Formatting
  the energy with \<open>:.6f\<close> raises TypeError when the energy is \<open>None\<close>.
\<close>

fun encut_loop ::
  "filesystem \<Rightarrow> nat list \<Rightarrow> pyfloat list \<Rightarrow> encut_msg list
     \<Rightarrow> py_error + (pyfloat list \<times> encut_msg list)" where
  "encut_loop fs [] energies out = Inr (energies, out)"
| "encut_loop fs (encut # rest) energies out =
     (if path_exists fs (encut_outcar_path encut) then
        (case extract_energy_from_outcar fs (encut_outcar_path encut) of
           Inl e \<Rightarrow> Inl e
         | Inr None \<Rightarrow> Inl TypeError
         | Inr (Some energy) \<Rightarrow>
             encut_loop fs rest (energies @ [energy]) (out @ [Print_energy encut energy]))
      else encut_loop fs rest (energies @ [NaN]) (out @ [Print_outcar_not_found encut]))"

text \<open>The scan of the differences: the index after the first one below 1 meV.\<close>

fun convergence_scan :: "nat \<Rightarrow> pyfloat list \<Rightarrow> nat option" where
  "convergence_scan i [] = None"
| "convergence_scan i (diff # rest) =
     (if flt diff (Fin (1 / 1000)) then Some (i + 1) else convergence_scan (Suc i) rest)"

text \<open>
  The function for a given list of cutoffs; the plot is left out. It returns the two
  lists and what it printed.
\<close>

definition analyze_encut_convergence_for ::
  "nat list \<Rightarrow> filesystem \<Rightarrow> py_error + ((nat list \<times> pyfloat list) \<times> encut_msg list)" where
  "analyze_encut_convergence_for values fs =
     (case encut_loop fs values [] [] of
        Inl e \<Rightarrow> Inl e
      | Inr (energies, out) \<Rightarrow>
          if 1 < length energies then
            (let energy_diffs = np_abs (np_diff energies) in
             case convergence_scan 0 energy_diffs of
               Some convergence_index \<Rightarrow>
                 if convergence_index < length values
                 then Inr ((values, energies),
                           out @ [Print_converged (values ! convergence_index)])
                 else Inl IndexError
             | None \<Rightarrow> Inr ((values, energies), out @ [Print_not_converged]))
          else Inr ((values, energies), out))"

definition analyze_encut_convergence ::
  "filesystem \<Rightarrow> py_error + ((nat list \<times> pyfloat list) \<times> encut_msg list)" where
  "analyze_encut_convergence fs = analyze_encut_convergence_for encut_values fs"

section \<open>Optimization_KPOINTS/KPOINTS_TEST.py\<close>

datatype kpoints_msg =
    Print_cannot_extract_energy string
  | Print_cannot_extract_kpoints string
  | Print_kpoints_energy int pyfloat
  | Print_no_valid_outcar
  | Print_analysis_header
  | Print_difference int pyfloat
  | Print_convergence_point int
  | Print_no_convergence_point

text \<open>\<open>s.split(sep)\<close> for a separator of one character.\<close>

fun split_on_acc :: "char \<Rightarrow> string \<Rightarrow> string \<Rightarrow> string list" where
  "split_on_acc sep cur [] = [rev cur]"
| "split_on_acc sep cur (c # cs) =
     (if c = sep then rev cur # split_on_acc sep [] cs else split_on_acc sep (c # cur) cs)"

definition split_on :: "char \<Rightarrow> string \<Rightarrow> string list" where
  "split_on sep s = split_on_acc sep [] s"

text \<open>
  \<open>int(s)\<close> on a string: whitespace stripped, an optional sign, digits with single
  underscores between them; \<open>None\<close> stands for ValueError.
\<close>

definition py_int :: "string \<Rightarrow> int option" where
  "py_int s =
     (let (neg, ds) = take_sign (strip s) in
      if valid_digitpart ds
      then Some (if neg then - int (nat_of_digits ds) else int (nat_of_digits ds))
      else None)"

definition get_kpoints_from_folder :: "string \<Rightarrow> int option \<times> kpoints_msg list" where
  "get_kpoints_from_folder folder_path =
     (case py_int (last (split_on CHR ''_'' folder_path)) of
        Some kpoints \<Rightarrow> (Some kpoints, [])
      | None \<Rightarrow> (None, [Print_cannot_extract_kpoints folder_path]))"

text \<open>
  The manual parse of the OUTCAR: at the first line with the marker,
  \<open>float(line.split()[-2])\<close>; an exception there is caught, reported and gives \<open>None\<close>;
  a file without such a line gives \<open>None\<close> silently.
\<close>

fun manual_energy_lines :: "string \<Rightarrow> string list \<Rightarrow> pyfloat option \<times> kpoints_msg list" where
  "manual_energy_lines outcar_path [] = (None, [])"
| "manual_energy_lines outcar_path (line # rest) =
     (if contains toten_marker line then
        (let parts = split line in
         if 2 \<le> length parts then
           (case py_float (parts ! (length parts - 2)) of
              Some energy \<Rightarrow> (Some energy, [])
            | None \<Rightarrow> (None, [Print_cannot_extract_energy outcar_path]))
         else (None, [Print_cannot_extract_energy outcar_path]))
      else manual_energy_lines outcar_path rest)"

text \<open>
  The reader of the \<open>ase\<close> library is not part of the repository: \<open>ase p\<close> is the energy
  it returns for the path \<open>p\<close>, or \<open>None\<close> when it raises.
\<close>

definition extract_energy_from_outcar_kpoints ::
  "(string \<Rightarrow> pyfloat option) \<Rightarrow> filesystem \<Rightarrow> string \<Rightarrow> pyfloat option \<times> kpoints_msg list" where
  "extract_energy_from_outcar_kpoints ase fs outcar_path =
     (case ase outcar_path of
        Some energy \<Rightarrow> (Some energy, [])
      | None \<Rightarrow>
          (case read_text fs outcar_path of
             Inl e \<Rightarrow> (None, [Print_cannot_extract_energy outcar_path])
           | Inr content \<Rightarrow> manual_energy_lines outcar_path (readlines content)))"

definition base_dirs :: "string list" where
  "base_dirs = [''KPOINTS_3'', ''KPOINTS_5'', ''KPOINTS_7'', ''KPOINTS_9'', ''KPOINTS_11'',
                ''KPOINTS_13'', ''KPOINTS_15'']"

text \<open>\<open>results[kpoints] = energy\<close> on a dictionary kept as a list of its items.\<close>

fun dict_set :: "int \<Rightarrow> pyfloat \<Rightarrow> (int \<times> pyfloat) list \<Rightarrow> (int \<times> pyfloat) list" where
  "dict_set k v [] = [(k, v)]"
| "dict_set k v ((k', v') # rest) =
     (if k' = k then (k, v) # rest else (k', v') # dict_set k v rest)"

text \<open>The loop over the folders, with the dictionary \<open>results\<close> and the printed lines.\<close>

fun kpoints_loop ::
  "(string \<Rightarrow> pyfloat option) \<Rightarrow> filesystem \<Rightarrow> string list \<Rightarrow> (int \<times> pyfloat) list
     \<Rightarrow> kpoints_msg list \<Rightarrow> (int \<times> pyfloat) list \<times> kpoints_msg list" where
  "kpoints_loop ase fs [] results out = (results, out)"
| "kpoints_loop ase fs (folder # rest) results out =
     (if path_exists fs folder \<and> path_exists fs (folder @ ''/OUTCAR'') then
        (let (kpoints, out1) = get_kpoints_from_folder folder;
             (energy, out2) = extract_energy_from_outcar_kpoints ase fs (folder @ ''/OUTCAR'')
         in case (kpoints, energy) of
              (Some k, Some e) \<Rightarrow>
                kpoints_loop ase fs rest (dict_set k e results)
                  (out @ out1 @ out2 @ [Print_kpoints_energy k e])
            | _ \<Rightarrow> kpoints_loop ase fs rest results (out @ out1 @ out2))
      else kpoints_loop ase fs rest results out)"

text \<open>
  The analysis of a non-empty dictionary: the items sorted by key, the differences to
  the energy of the largest key, and the first key whose difference is below the
  threshold.
\<close>

definition threshold :: pyfloat where
  "threshold = Fin (1 / 1000)"

definition energy_differences_of :: "pyfloat list \<Rightarrow> pyfloat list" where
  "energy_differences_of sorted_energies =
     (let ref_energy = last sorted_energies
      in map (\<lambda>e. fabs (fsub e ref_energy)) sorted_energies)"

fun find_converged :: "int list \<Rightarrow> pyfloat list \<Rightarrow> int option" where
  "find_converged (k # ks) (d # ds) = (if flt d threshold then Some k else find_converged ks ds)"
| "find_converged _ _ = None"

definition convergence_analysis ::
  "(int \<times> pyfloat) list \<Rightarrow> int option \<times> kpoints_msg list" where
  "convergence_analysis results =
     (let sorted_items = sort_key fst results;
          sorted_kpoints = map fst sorted_items;
          sorted_energies = map snd sorted_items;
          energy_differences = energy_differences_of sorted_energies;
          out = Print_analysis_header
                # map (\<lambda>(k, d). Print_difference k d) (zip sorted_kpoints energy_differences)
      in case find_converged sorted_kpoints energy_differences of
           Some k \<Rightarrow> (Some k, out @ [Print_convergence_point k])
         | None \<Rightarrow> (None, out @ [Print_no_convergence_point]))"

text \<open>
  The function for a given list of folders; the plot is left out. It returns
  \<open>converged_kpoints\<close> and what it printed.
\<close>

definition plot_kpoints_convergence_for ::
  "string list \<Rightarrow> (string \<Rightarrow> pyfloat option) \<Rightarrow> filesystem \<Rightarrow> int option \<times> kpoints_msg list" where
  "plot_kpoints_convergence_for dirs ase fs =
     (let (results, out) = kpoints_loop ase fs dirs [] [] in
      if results = [] then (None, out @ [Print_no_valid_outcar])
      else (let (converged_kpoints, out') = convergence_analysis results
            in (converged_kpoints, out @ out')))"

definition plot_kpoints_convergence ::
  "(string \<Rightarrow> pyfloat option) \<Rightarrow> filesystem \<Rightarrow> int option \<times> kpoints_msg list" where
  "plot_kpoints_convergence ase fs = plot_kpoints_convergence_for base_dirs ase fs"

section \<open>DOS/DOS.py\<close>

datatype dos_msg =
    Warn_file_missing string
  | Warn_no_fermi_energy string
  | Warn_pdos_too_few_columns
  | Warn_pdos_format

subsection \<open>\<open>extract_fermi_energy\<close>\<close>











subsection \<open>The choice of the columns of the projected density of states\<close>

record pdos_channels =
  s_dos :: "pyfloat list"
  px_dos :: "pyfloat list"
  py_dos :: "pyfloat list"
  pz_dos :: "pyfloat list"

text \<open>\<open>pdos_data.shape[1]\<close>: IndexError on a one-dimensional array.\<close>

definition shape1 :: "ndarray \<Rightarrow> py_error + nat" where
  "shape1 a = (case a of Array1 _ \<Rightarrow> Inl IndexError | Array2 ncols _ \<Rightarrow> Inr ncols)"

definition zeros_like :: "pyfloat list \<Rightarrow> pyfloat list" where
  "zeros_like xs = replicate (length xs) (Fin 0)"

definition zero_channels :: "pyfloat list \<Rightarrow> pdos_channels" where
  "zero_channels pdos_energy =
     \<lparr> s_dos = zeros_like pdos_energy, px_dos = zeros_like pdos_energy,
       py_dos = zeros_like pdos_energy, pz_dos = zeros_like pdos_energy \<rparr>"

text \<open>Four columns of the table, in the order s, px, py, pz of the variables.\<close>

definition take_columns ::
  "ndarray \<Rightarrow> nat \<Rightarrow> nat \<Rightarrow> nat \<Rightarrow> nat \<Rightarrow> py_error + pdos_channels" where
  "take_columns a i j k l =
     (case column a i of Inl e \<Rightarrow> Inl e | Inr s \<Rightarrow>
      case column a j of Inl e \<Rightarrow> Inl e | Inr px \<Rightarrow>
      case column a k of Inl e \<Rightarrow> Inl e | Inr py \<Rightarrow>
      case column a l of Inl e \<Rightarrow> Inl e | Inr pz \<Rightarrow>
        Inr \<lparr> s_dos = s, px_dos = px, py_dos = py, pz_dos = pz \<rparr>)"

text \<open>The body of the \<open>try\<close>: the branch on the number of columns.\<close>

definition pdos_try_body ::
  "ndarray \<Rightarrow> pyfloat list \<Rightarrow> py_error + (pdos_channels \<times> dos_msg list)" where
  "pdos_try_body pdos_data pdos_energy =
     (case shape1 pdos_data of
        Inl e \<Rightarrow> Inl e
      | Inr ncols \<Rightarrow>
          if 8 \<le> ncols then
            (case take_columns pdos_data 1 3 5 7 of Inl e \<Rightarrow> Inl e | Inr ch \<Rightarrow> Inr (ch, []))
          else if 5 \<le> ncols then
            (case take_columns pdos_data 1 2 3 4 of Inl e \<Rightarrow> Inl e | Inr ch \<Rightarrow> Inr (ch, []))
          else Inr (zero_channels pdos_energy, [Warn_pdos_too_few_columns]))"

text \<open>
  The module-level code after \<open>np.loadtxt\<close>: the energy column, read outside the
  \<open>try\<close>, then the channels, with the handler for IndexError.
\<close>

definition select_pdos_channels ::
  "ndarray \<Rightarrow> py_error + (pyfloat list \<times> pdos_channels \<times> dos_msg list)" where
  "select_pdos_channels pdos_data =
     (case column pdos_data 0 of
        Inl e \<Rightarrow> Inl e
      | Inr pdos_energy \<Rightarrow>
          (case pdos_try_body pdos_data pdos_energy of
             Inl IndexError \<Rightarrow> Inr (pdos_energy, zero_channels pdos_energy, [Warn_pdos_format])
           | Inl e \<Rightarrow> Inl e
           | Inr (ch, out) \<Rightarrow> Inr (pdos_energy, ch, out)))"

section \<open>Inputs used as examples\<close>

text \<open>A file system without any file.\<close>

definition no_files :: filesystem where
  "no_files = (\<lambda>p. Missing)"

text \<open>A band table with 5 samples of the path and 3 bands.\<close>

definition example_band_rows :: "pyfloat list list" where
  "example_band_rows =
     [[Fin 0, Fin (- 1), Fin (1 / 2), Fin 2],
      [Fin (1 / 2), Fin (- 4 / 5), Fin (3 / 10), Fin (9 / 5)],
      [Fin 1, Fin (- 1 / 2), Fin 0, Fin (3 / 2)],
      [Fin (3 / 2), Fin (- 4 / 5), Fin (3 / 10), Fin (9 / 5)],
      [Fin 2, Fin (- 1), Fin (1 / 2), Fin 2]]"

text \<open>A label file that puts the point K on the last sample of that table.\<close>

definition klabels_at_end :: filesystem where
  "klabels_at_end = (\<lambda>p. if p = ''KLABELS'' then Text ''K 2.0\<newline>'' else Missing)"


text \<open>A sweep whose second OUTCAR file has no line with the energy.\<close>

definition encut_no_toten_fs :: filesystem where
  "encut_no_toten_fs =
     (\<lambda>p. if p = ''Encut_200/OUTCAR'' then Text ''  free  energy   TOTEN  =       -10.000 eV\<newline>''
          else if p = ''Encut_250/OUTCAR'' then Text '' General timing and accounting\<newline>''
          else Missing)"

text \<open>The reader of the \<open>ase\<close> library failing on every file.\<close>

definition ase_fails :: "string \<Rightarrow> pyfloat option" where
  "ase_fails = (\<lambda>p. None)"

text \<open>Two folders of the k-point sweep, with the energies -18.40 and -18.45.\<close>

definition kpoints_example_fs :: filesystem where
  "kpoints_example_fs =
     (\<lambda>p. if p = ''KPOINTS_3'' \<or> p = ''KPOINTS_5'' then Directory
          else if p = ''KPOINTS_3/OUTCAR'' then Text ''  free  energy   TOTEN  =       -18.40 eV\<newline>''
          else if p = ''KPOINTS_5/OUTCAR'' then Text ''  free  energy   TOTEN  =       -18.45 eV\<newline>''
          else Missing)"

text \<open>One folder of the k-point sweep, whose OUTCAR file gives the energy as NaN.\<close>

definition kpoints_nan_fs :: filesystem where
  "kpoints_nan_fs =
     (\<lambda>p. if p = ''KPOINTS_3'' then Directory
          else if p = ''KPOINTS_3/OUTCAR'' then Text ''  free  energy   TOTEN  =       NaN eV\<newline>''
          else Missing)"


text \<open>A table of projected densities of states with 2 rows and 9 columns.\<close>

definition example_pdos_rows :: "pyfloat list list" where
  "example_pdos_rows =
     [[Fin (- 1), Fin 1, Fin 2, Fin 3, Fin 4, Fin 5, Fin 6, Fin 7, Fin 8],
      [Fin 0, Fin 11, Fin 12, Fin 13, Fin 14, Fin 15, Fin 16, Fin 17, Fin 18]]"

section \<open>Evaluation of the primitives on given texts\<close>

lemmas text_eval = is_space_def is_digit_def digit_val_def lower_char_def lower_def strip_def
  split.simps remove_backslash_def readlines_def is_digit_us_def nat_of_digits_def take_sign_def
  parse_exponent_def parse_number_def scale10_def py_float_def

lemma DBL_OVERFLOW_large: "2 ^ 64 < DBL_OVERFLOW"
proof -
  have "(2::real) ^ 64 < 2 ^ 970" by (rule power_strict_increasing) simp_all
  moreover have "(2::real) ^ 970 + 2 ^ 970 \<le> 2 ^ 1024"
  proof -
    have "(2::real) ^ 970 + 2 ^ 970 = 2 ^ 971" by simp
    also have "\<dots> \<le> 2 ^ 1024" by (rule power_increasing) simp_all
    finally show ?thesis .
  qed
  ultimately show ?thesis by (simp add: DBL_OVERFLOW_def)
qed

lemma of_real_ovf_small: "\<bar>x\<bar> < 2 ^ 64 \<Longrightarrow> of_real_ovf x = Fin x"
  using DBL_OVERFLOW_large by (auto simp: of_real_ovf_def)

lemmas float_eval = fsub_def fge_def sort_le_def np_abs_def of_real_ovf_small

section \<open>The label file: \<open>read_klabels\<close>\<close>

lemma klabels_loop_append:
  "klabels_loop (xs @ ys) acc = klabels_loop ys (klabels_loop xs acc)"
proof (induction xs arbitrary: acc)
  case Nil
  show ?case by (cases acc) simp
next
  case (Cons l xs)
  show ?case by (cases acc) (simp add: Cons.IH Let_def split: option.splits)
qed

lemma klabels_loop_blank:
  "strip l = [] \<Longrightarrow> klabels_loop (l # rest) acc = klabels_loop rest acc"
  by (cases acc) simp

lemma klabels_loop_unparsed:
  "py_float (last (split l)) = None \<Longrightarrow> klabels_loop (l # rest) acc = klabels_loop rest acc"
  by (cases acc) (simp add: Let_def)

lemma klabels_loop_skip_blank:
  "klabels_loop (drop (skip_blank lines n) lines) acc = klabels_loop (drop n lines) acc"
proof (cases "n < length lines \<and> strip (lines ! n) = []")
  case True
  then have "drop n lines = lines ! n # drop (Suc n) lines"
    by (simp add: Cons_nth_drop_Suc)
  with True show ?thesis by (simp add: skip_blank_def klabels_loop_blank)
next
  case False
  then show ?thesis by (auto simp: skip_blank_def)
qed

lemma klabels_of_lines_eq:
  "klabels_of_lines lines = klabels_loop (drop (header_start lines) lines) ([], [])"
  by (simp add: klabels_of_lines_def klabels_loop_skip_blank)

lemma header_start_le: "header_start lines \<le> 1"
  by (simp add: header_start_def)

lemma header_start_append: "pre \<noteq> [] \<Longrightarrow> header_start (pre @ xs) = header_start pre"
  by (simp add: header_start_def)


text \<open>
  Claim C6. A line whose last whitespace token is not a number for \<open>float\<close> adds neither
  a label nor a coordinate: the loop over the data lines gives the same lists with and
  without the line, wherever it stands and whatever was collected before; so does the
  whole body for a line that is not the first one of the file; and when the line is the
  first one, the result is that of the loop on the lines after it. The function cannot
  raise on such a line: the ValueError is caught in the loop.
\<close>

theorem read_klabels_skips_unparsed_line:
  assumes "py_float (last (split l)) = None"
  shows "klabels_loop (pre @ l # post) acc = klabels_loop (pre @ post) acc
       \<and> (pre \<noteq> [] \<longrightarrow> klabels_of_lines (pre @ l # post) = klabels_of_lines (pre @ post))
       \<and> klabels_of_lines (l # post) = klabels_loop post ([], [])"
proof (intro conjI impI)
  show loop: "klabels_loop (pre @ l # post) acc = klabels_loop (pre @ post) acc" for pre acc
    using assms by (simp add: klabels_loop_append klabels_loop_unparsed)
  show "klabels_of_lines (pre @ l # post) = klabels_of_lines (pre @ post)" if "pre \<noteq> []"
  proof -
    have le: "header_start pre \<le> length pre"
      using that header_start_le [of pre] by (cases pre) simp_all
    show ?thesis
      using that le loop [of "drop (header_start pre) pre"]
      by (simp add: klabels_of_lines_eq header_start_append)
  qed
  show "klabels_of_lines (l # post) = klabels_loop post ([], [])"
  proof (cases "header_start (l # post) = 0")
    case True
    then show ?thesis
      using klabels_loop_unparsed [OF assms, of post "([], [])"]
      by (simp only: klabels_of_lines_eq drop_0)
  next
    case False
    then have "header_start (l # post) = 1"
      using header_start_le [of "l # post"] by simp
    then show ?thesis by (simp only: klabels_of_lines_eq) simp
  qed
qed

theorem read_klabels_skips_unparsed_line_witness:
  "py_float (last (split ''X abc\<newline>'')) = None
   \<and> klabels_of_lines [''K-Label Coordinate\<newline>'', ''Gamma 0.0\<newline>'', ''X abc\<newline>'', ''K 1.5\<newline>'']
       = klabels_of_lines [''K-Label Coordinate\<newline>'', ''Gamma 0.0\<newline>'', ''K 1.5\<newline>'']
   \<and> klabels_of_lines [''K-Label Coordinate\<newline>'', ''Gamma 0.0\<newline>'', ''K 1.5\<newline>'']
       = ([Fin 0, Fin (3 / 2)], [''Gamma'', ''K''])"
proof -
  have h: "py_float (last (split ''X abc\<newline>'')) = None"
    by (simp add: text_eval)
  have e: "klabels_of_lines [''K-Label Coordinate\<newline>'', ''Gamma 0.0\<newline>'', ''K 1.5\<newline>'']
       = ([Fin 0, Fin (3 / 2)], [''Gamma'', ''K''])"
    by (simp add: klabels_of_lines_def header_start_def skip_blank_def text_eval
        of_real_ovf_small)
  show ?thesis
    using h e
      read_klabels_skips_unparsed_line [OF h,
        of "[''K-Label Coordinate\<newline>'', ''Gamma 0.0\<newline>'']" "[''K 1.5\<newline>'']" "([], [])"]
    by simp
qed

section \<open>The order of floats, \<open>np.argmin\<close> and \<open>np.argsort\<close>\<close>

lemma fge_refl: "a \<noteq> NaN \<Longrightarrow> fge a a"
  by (simp add: fge_def)

lemma flt_trans: "flt a b \<Longrightarrow> flt b c \<Longrightarrow> flt a c"
  by (cases a; cases b; cases c) simp_all

lemma fge_trans: "fge a b \<Longrightarrow> fge b c \<Longrightarrow> fge a c"
  by (cases a; cases b; cases c) (auto simp: fge_def)

lemma not_fge_flt: "a \<noteq> NaN \<Longrightarrow> b \<noteq> NaN \<Longrightarrow> \<not> fge a b \<Longrightarrow> flt a b"
  by (cases a; cases b) (auto simp: fge_def)

lemma flt_fge: "flt a b \<Longrightarrow> fge b a"
  by (simp add: fge_def)

lemma sort_le_total: "sort_le a b \<or> sort_le b a"
  by (cases a; cases b) (auto simp: sort_le_def fge_def)

lemma sort_le_trans: "sort_le a b \<Longrightarrow> sort_le b c \<Longrightarrow> sort_le a c"
  by (cases a; cases b; cases c) (auto simp: sort_le_def fge_def)

lemma argmin_loop_spec:
  assumes "i \<le> length xs" "mi < i" "mp = xs ! mi" "mp \<noteq> NaN" "\<forall>j<i. fge (xs ! j) mp"
  shows "argmin_loop mp mi i (drop i xs) < length xs
       \<and> (xs ! argmin_loop mp mi i (drop i xs) = NaN
          \<or> (\<forall>j<length xs. fge (xs ! j) (xs ! argmin_loop mp mi i (drop i xs))))"
  using assms
proof (induction "length xs - i" arbitrary: i mi mp)
  case 0
  then have "drop i xs = []" and "i = length xs" by simp_all
  with 0 show ?case by simp
next
  case (Suc d)
  then have lt: "i < length xs" by simp
  then have dr: "drop i xs = xs ! i # drop (Suc i) xs"
    by (simp add: Cons_nth_drop_Suc)
  have d: "d = length xs - Suc i" using Suc.hyps(2) by simp
  show ?case
  proof (cases "fge (xs ! i) mp")
    case True
    have "\<forall>j<Suc i. fge (xs ! j) mp"
      using Suc.prems(5) True by (auto simp: less_Suc_eq)
    with Suc.hyps(1) [OF d, of mi mp] Suc.prems lt True dr show ?thesis by simp
  next
    case False
    show ?thesis
    proof (cases "xs ! i = NaN")
      case True
      with False dr lt show ?thesis by simp
    next
      case nn: False
      have "flt (xs ! i) mp"
        using not_fge_flt [OF nn Suc.prems(4) False] .
      then have "fge mp (xs ! i)" by (rule flt_fge)
      then have "\<forall>j<Suc i. fge (xs ! j) (xs ! i)"
        using Suc.prems(5) nn by (auto simp: less_Suc_eq fge_refl intro: fge_trans)
      with Suc.hyps(1) [OF d, of i "xs ! i"] lt nn False dr show ?thesis by simp
    qed
  qed
qed

lemma np_argmin_spec:
  assumes "xs \<noteq> []"
  shows "\<exists>i. np_argmin xs = Inr i \<and> i < length xs
           \<and> (xs ! i = NaN \<or> (\<forall>j<length xs. fge (xs ! j) (xs ! i)))"
proof (cases xs)
  case Nil
  with assms show ?thesis by simp
next
  case (Cons x r)
  show ?thesis
  proof (cases "x = NaN")
    case True
    with Cons show ?thesis by (simp add: np_argmin_def)
  next
    case False
    have a: "argmin_loop x 0 1 (drop 1 xs) < length xs
       \<and> (xs ! argmin_loop x 0 1 (drop 1 xs) = NaN
          \<or> (\<forall>j<length xs. fge (xs ! j) (xs ! argmin_loop x 0 1 (drop 1 xs))))"
      using Cons False by (intro argmin_loop_spec) (simp_all add: fge_refl)
    have dr: "drop 1 xs = r" using Cons by simp
    have np: "np_argmin xs = Inr (argmin_loop x 0 1 r)"
      using Cons False by (simp add: np_argmin_def)
    show ?thesis using a unfolding dr np by blast
  qed
qed

lemma set_insert_index [simp]: "set (insert_index keys i js) = insert i (set js)"
  by (induction js) auto

lemma length_insert_index [simp]: "length (insert_index keys i js) = Suc (length js)"
  by (induction js) auto

lemma distinct_insert_index: "i \<notin> set js \<Longrightarrow> distinct js \<Longrightarrow> distinct (insert_index keys i js)"
  by (induction js) auto

lemma sorted_insert_index:
  "sorted_wrt (\<lambda>a b. sort_le (keys ! a) (keys ! b)) js
   \<Longrightarrow> sorted_wrt (\<lambda>a b. sort_le (keys ! a) (keys ! b)) (insert_index keys i js)"
proof (induction js)
  case Nil
  show ?case by simp
next
  case (Cons j js)
  show ?case
  proof (cases "sort_le (keys ! i) (keys ! j)")
    case True
    with Cons.prems show ?thesis by (auto intro: sort_le_trans)
  next
    case False
    then have "sort_le (keys ! j) (keys ! i)" using sort_le_total by blast
    with False Cons show ?thesis by auto
  qed
qed

lemma foldr_insert_index:
  "set (foldr (insert_index keys) is []) = set is
   \<and> length (foldr (insert_index keys) is []) = length is
   \<and> (distinct is \<longrightarrow> distinct (foldr (insert_index keys) is []))
   \<and> sorted_wrt (\<lambda>a b. sort_le (keys ! a) (keys ! b)) (foldr (insert_index keys) is [])"
  by (induction "is") (auto simp: distinct_insert_index sorted_insert_index)

lemma np_argsort_spec:
  "set (np_argsort keys) = {0..<length keys}"
  "length (np_argsort keys) = length keys"
  "distinct (np_argsort keys)"
  "sorted_wrt (\<lambda>a b. sort_le (keys ! a) (keys ! b)) (np_argsort keys)"
  using foldr_insert_index [of keys "[0..<length keys]"] by (simp_all add: np_argsort_def)

text \<open>
  Whatever the order of equal keys, the first indices of a sorted order have the
  smallest keys.
\<close>

lemma take_sorted_smallest:
  assumes "sorted_wrt (\<lambda>a b. sort_le (keys ! a) (keys ! b)) p" "set p = {0..<n}"
    "s \<in> set (take m p)" "t < n" "t \<notin> set (take m p)"
  shows "sort_le (keys ! s) (keys ! t)"
proof -
  have "set p = set (take m p) \<union> set (drop m p)"
    by (metis append_take_drop_id set_append)
  with assms(2,4,5) have t: "t \<in> set (drop m p)" by auto
  have "sorted_wrt (\<lambda>a b. sort_le (keys ! a) (keys ! b)) (take m p @ drop m p)"
    using assms(1) by simp
  then show ?thesis using assms(3) t unfolding sorted_wrt_append by blast
qed


section \<open>The Dirac cone: \<open>analyze_dirac_cone\<close>\<close>

lemma klabels_loop_lengths:
  "length (fst acc) = length (snd acc)
   \<Longrightarrow> length (fst (klabels_loop lines acc)) = length (snd (klabels_loop lines acc))"
proof (induction lines arbitrary: acc)
  case Nil
  then show ?case by (cases acc) simp
next
  case (Cons l lines)
  obtain sp lb where acc: "acc = (sp, lb)" by (cases acc)
  with Cons.prems have eq: "length sp = length lb" by simp
  show ?case
    unfolding acc using eq Cons.IH [of "(sp, lb)"] Cons.IH [of "(sp @ [c], lb @ [x])" for c x]
    by (simp add: Let_def split: option.splits)
qed

lemma read_klabels_lengths:
  "length (fst (fst (read_klabels fs f))) = length (snd (fst (read_klabels fs f)))"
  using klabels_loop_lengths [of "([], [])"]
  by (simp add: read_klabels_def klabels_of_lines_def split: sum.splits)

lemma first_k_index_bound: "first_k_index i ls = Some j \<Longrightarrow> j < i + length ls"
proof (induction ls arbitrary: i)
  case Nil
  then show ?case by simp
next
  case (Cons l ls)
  show ?case
  proof (cases "is_k_label l")
    case True
    with Cons.prems show ?thesis by simp
  next
    case False
    with Cons.prems have "first_k_index (Suc i) ls = Some j" by simp
    from Cons.IH [OF this] show ?thesis by simp
  qed
qed

lemma k_position_of_returns:
  assumes "k_points \<noteq> []" "length sp = length lb"
  shows "\<exists>kp out. k_position_of sp lb k_points = Inr (kp, out)
           \<and> (sp = [] \<longrightarrow> kp = fhalf (fadd (hd k_points) (last k_points))
                         \<and> out = [Warn_no_sym_points])"
proof (cases "sp = []")
  case True
  with assms show ?thesis by (simp add: k_position_of_def)
next
  case False
  show ?thesis
  proof (cases "first_k_index 0 lb")
    case None
    with False show ?thesis by (simp add: k_position_of_def)
  next
    case (Some i)
    then have "i < length sp" using first_k_index_bound [of 0 lb i] assms(2) by simp
    with False Some show ?thesis by (simp add: k_position_of_def)
  qed
qed

lemma nearest_index_returns:
  assumes "k_points \<noteq> []"
  shows "\<exists>i. nearest_index k_points kp = Inr i \<and> i < length k_points
           \<and> (fabs (fsub (k_points ! i) kp) = NaN
              \<or> (\<forall>j<length k_points.
                    fge (fabs (fsub (k_points ! j) kp)) (fabs (fsub (k_points ! i) kp))))"
proof -
  let ?d = "np_abs (map (\<lambda>k. fsub k kp) k_points)"
  have ne: "?d \<noteq> []" using assms by (simp add: np_abs_def)
  have nth: "?d ! j = fabs (fsub (k_points ! j) kp)" if "j < length k_points" for j
    using that by (simp add: np_abs_def)
  have len: "length ?d = length k_points" by (simp add: np_abs_def)
  from np_argmin_spec [OF ne] obtain i where
    i: "np_argmin ?d = Inr i" "i < length ?d"
       "?d ! i = NaN \<or> (\<forall>j<length ?d. fge (?d ! j) (?d ! i))"
    by blast
  show ?thesis
  proof (intro exI conjI)
    show "nearest_index k_points kp = Inr i" using i(1) by (simp add: nearest_index_def)
    show "i < length k_points" using i(2) len by simp
    show "fabs (fsub (k_points ! i) kp) = NaN
       \<or> (\<forall>j<length k_points. fge (fabs (fsub (k_points ! j) kp)) (fabs (fsub (k_points ! i) kp)))"
      using i(2,3) nth len by auto
  qed
qed

lemma analyze_dirac_cone_returns:
  assumes "rows \<noteq> []" "0 < ncols"
  shows "\<exists>kp out2 i.
      k_position_of (fst (fst (read_klabels fs ''KLABELS''))) (snd (fst (read_klabels fs ''KLABELS'')))
          (map (\<lambda>r. r ! 0) rows) = Inr (kp, out2)
    \<and> nearest_index (map (\<lambda>r. r ! 0) rows) kp = Inr i
    \<and> i < length rows
    \<and> (fabs (fsub (rows ! i ! 0) kp) = NaN
        \<or> (\<forall>j<length rows. fge (fabs (fsub (rows ! j ! 0) kp)) (fabs (fsub (rows ! i ! 0) kp))))
    \<and> analyze_dirac_cone fs (Array2 ncols rows) =
        Inr (\<lparr> k_position = kp, k_index_band = i,
               start_idx = start_idx_of i, end_idx = end_idx_of (length rows) i,
               k_window = slice (map (\<lambda>r. r ! 0) rows) (start_idx_of i) (end_idx_of (length rows) i),
               e_window = slice (map (drop 1) rows) (start_idx_of i) (end_idx_of (length rows) i),
               dirac_bands = select_dirac_bands (drop 1 (rows ! i)) \<rparr>,
             snd (read_klabels fs ''KLABELS'') @ out2
               @ [Print_dirac_bands (select_dirac_bands (drop 1 (rows ! i)))])"
proof -
  let ?kpts = "map (\<lambda>r. r ! 0) rows"
  obtain sp lb out1 where rk: "read_klabels fs ''KLABELS'' = ((sp, lb), out1)"
    by (metis prod.exhaust)
  have ne: "?kpts \<noteq> []" using assms(1) by simp
  have len: "length sp = length lb" using read_klabels_lengths [of fs "''KLABELS''"] rk by simp
  from k_position_of_returns [OF ne len] obtain kp out2 where
    kp: "k_position_of sp lb ?kpts = Inr (kp, out2)" by blast
  from nearest_index_returns [OF ne, of kp] obtain i where
    i: "nearest_index ?kpts kp = Inr i" "i < length ?kpts"
    and near: "fabs (fsub (?kpts ! i) kp) = NaN
       \<or> (\<forall>j<length ?kpts. fge (fabs (fsub (?kpts ! j) kp)) (fabs (fsub (?kpts ! i) kp)))"
    by blast
  have near': "fabs (fsub (rows ! i ! 0) kp) = NaN
        \<or> (\<forall>j<length rows. fge (fabs (fsub (rows ! j ! 0) kp)) (fabs (fsub (rows ! i ! 0) kp)))"
    using near i(2) by auto
  have "analyze_dirac_cone fs (Array2 ncols rows) =
        Inr (\<lparr> k_position = kp, k_index_band = i,
               start_idx = start_idx_of i, end_idx = end_idx_of (length rows) i,
               k_window = slice ?kpts (start_idx_of i) (end_idx_of (length rows) i),
               e_window = slice (map (drop 1) rows) (start_idx_of i) (end_idx_of (length rows) i),
               dirac_bands = select_dirac_bands (drop 1 (rows ! i)) \<rparr>,
             out1 @ out2 @ [Print_dirac_bands (select_dirac_bands (drop 1 (rows ! i)))])"
    using assms(2) rk kp i
    by (simp add: analyze_dirac_cone_def column_def columns_from_1_def Let_def)
  with rk kp i near' show ?thesis by simp
qed

lemma slice_nth:
  assumes "0 \<le> a" "a \<le> b" "b \<le> int (length xs)"
  shows "slice xs a b = map (\<lambda>j. xs ! j) [nat a..<nat b]"
proof -
  have sa: "slice_bound (length xs) a = nat a" and sb: "slice_bound (length xs) b = nat b"
    using assms by (simp_all add: slice_bound_def)
  have "take (nat b - nat a) (drop (nat a) xs) = map (\<lambda>j. xs ! j) [nat a..<nat b]"
    using assms by (intro nth_equalityI) auto
  then show ?thesis by (simp add: slice_def sa sb)
qed

lemma window_bounds:
  assumes "i < n"
  shows "start_idx_of i = max 0 (int i - 50) \<and> end_idx_of n i = min (int n) (int i + 50)
       \<and> 0 \<le> start_idx_of i \<and> start_idx_of i \<le> int i \<and> int i < end_idx_of n i
       \<and> end_idx_of n i \<le> int n"
  using assms by (simp add: start_idx_of_def end_idx_of_def window_def)


lemma band_key_zero: "band_keys row ! j = Fin 0" if "j < length row" "row ! j = Fin 0"
  using that by (simp add: band_keys_def np_abs_def fermi_energy_dirac_def fsub_def of_real_ovf_small)

lemma band_key_positive:
  assumes "j < length row" "flt (Fin 0) (fabs (row ! j))"
  shows "flt (Fin 0) (band_keys row ! j)"
proof -
  have "flt (Fin 0) (fabs (fsub v (Fin 0)))" if "flt (Fin 0) (fabs v)" for v
    using that by (cases v) (auto simp: fsub_def of_real_ovf_def)
  with assms show ?thesis by (simp add: band_keys_def np_abs_def fermi_energy_dirac_def)
qed

lemma sort_le_zero_positive: "flt (Fin 0) a \<Longrightarrow> \<not> sort_le a (Fin 0)"
  by (cases a) (auto simp: sort_le_def fge_def)

lemma select_dirac_bands_spec:
  fixes row :: "pyfloat list"
  defines "sel \<equiv> select_dirac_bands row"
  shows "length sel = min 2 (length row)"
    and "distinct sel"
    and "s \<in> set sel \<Longrightarrow> s < length row"
    and "s \<in> set sel \<Longrightarrow> t < length row \<Longrightarrow> t \<notin> set sel
         \<Longrightarrow> sort_le (band_keys row ! s) (band_keys row ! t)"
    and "j < length row \<Longrightarrow> row ! j = Fin 0
         \<Longrightarrow> (\<forall>t<length row. t \<noteq> j \<longrightarrow> flt (Fin 0) (fabs (row ! t))) \<Longrightarrow> j \<in> set sel"
proof -
  let ?keys = "band_keys row"
  let ?p = "np_argsort ?keys"
  have n: "length ?keys = length row" by (simp add: band_keys_def np_abs_def)
  have sel: "sel = take 2 ?p" by (simp add: sel_def select_dirac_bands_def)
  have setp: "set ?p = {0..<length row}" using np_argsort_spec(1) [of ?keys] n by simp
  have lenp: "length ?p = length row" using np_argsort_spec(2) [of ?keys] n by simp
  have sorted: "sorted_wrt (\<lambda>a b. sort_le (?keys ! a) (?keys ! b)) ?p"
    by (rule np_argsort_spec(4))
  show "length sel = min 2 (length row)" using lenp by (simp add: sel min.commute)
  show "distinct sel" using np_argsort_spec(3) [of ?keys] by (simp add: sel)
  show lt: "s < length row" if "s \<in> set sel" for s
    using that setp in_set_takeD [of s 2 ?p] by (auto simp: sel)
  show small: "sort_le (?keys ! s) (?keys ! t)"
    if "s \<in> set sel" "t < length row" "t \<notin> set sel" for s t
    using take_sorted_smallest [OF sorted setp, of s 2 t] that by (simp add: sel)
  show "j \<in> set sel"
    if j: "j < length row" "row ! j = Fin 0"
      and others: "\<forall>t<length row. t \<noteq> j \<longrightarrow> flt (Fin 0) (fabs (row ! t))"
  proof (rule ccontr)
    assume nj: "j \<notin> set sel"
    have "sel \<noteq> []" using j(1) lenp by (auto simp: sel)
    then obtain s where s: "s \<in> set sel" by (cases sel) auto
    with nj have "s \<noteq> j" by auto
    then have "flt (Fin 0) (?keys ! s)"
      using others lt [OF s] band_key_positive [of s row] by simp
    moreover have "sort_le (?keys ! s) (Fin 0)"
      using small [OF s j(1) nj] band_key_zero [OF j] by simp
    ultimately show False using sort_le_zero_positive by blast
  qed
qed

lemma analyze_example_table:
  "analyze_dirac_cone no_files (Array2 4 example_band_rows) =
     Inr (\<lparr> k_position = Fin 1, k_index_band = 2, start_idx = 0, end_idx = 5,
            k_window = [Fin 0, Fin (1 / 2), Fin 1, Fin (3 / 2), Fin 2],
            e_window = map (drop 1) example_band_rows,
            dirac_bands = [1, 0] \<rparr>,
          [Warn_klabels_not_found, Warn_no_sym_points, Print_dirac_bands [1, 0]])"
  by (simp add: analyze_dirac_cone_def column_def columns_from_1_def read_klabels_def
      path_exists_def k_position_of_def nearest_index_def np_argmin_def start_idx_of_def
      end_idx_of_def window_def slice_def slice_bound_def select_dirac_bands_def band_keys_def
      fermi_energy_dirac_def np_argsort_def example_band_rows_def no_files_def float_eval
      upt_rec Let_def numeral_2_eq_2)

lemma read_klabels_at_end:
  "read_klabels klabels_at_end ''KLABELS'' = (([Fin 2], [''K'']), [])"
  by (simp add: read_klabels_def klabels_of_lines_def header_start_def skip_blank_def
      read_text_def path_exists_def klabels_at_end_def text_eval of_real_ovf_small)

lemma is_k_label_K: "is_k_label ''K''"
  by (simp add: is_k_label_def lower_def lower_char_def char_of_def bit_Suc_0_iff)

lemma analyze_example_table_at_end:
  "analyze_dirac_cone klabels_at_end (Array2 4 example_band_rows) =
     Inr (\<lparr> k_position = Fin 2, k_index_band = 4, start_idx = 0, end_idx = 5,
            k_window = [Fin 0, Fin (1 / 2), Fin 1, Fin (3 / 2), Fin 2],
            e_window = map (drop 1) example_band_rows,
            dirac_bands = [1, 0] \<rparr>,
          [Print_dirac_bands [1, 0]])"
proof -
  have four: "(4::nat) = Suc (Suc (Suc (Suc 0)))" by simp
  show ?thesis
    by (simp add: analyze_dirac_cone_def column_def columns_from_1_def read_klabels_at_end
        is_k_label_K k_position_of_def nearest_index_def np_argmin_def start_idx_of_def
        end_idx_of_def window_def slice_def slice_bound_def select_dirac_bands_def
        band_keys_def fermi_energy_dirac_def np_argsort_def example_band_rows_def float_eval
        upt_rec Let_def numeral_2_eq_2 four)
qed

text \<open>
  Claim C4. For every band table (two-dimensional, with at least one row and one
  column) the function returns; the sample it uses is the one nearest to the target
  position, as \<open>np.argmin\<close> finds it; and the bands it selects are the first two of the
  bands sorted by the absolute distance of their energy at that sample to the reference
  energy 0: two bands when there are two, none repeated, each with a key that is not
  above the key of any band left out. In particular a band whose energy at that sample
  is exactly 0, while every other band has a non-zero absolute value there, is one of
  the selected bands.
\<close>

theorem dirac_bands_nearest_to_fermi:
  assumes "rows \<noteq> []" and "0 < ncols"
  shows "\<exists>r out. analyze_dirac_cone fs (Array2 ncols rows) = Inr (r, out)
    \<and> k_index_band r < length rows
    \<and> nearest_index (map (\<lambda>row. row ! 0) rows) (k_position r) = Inr (k_index_band r)
    \<and> (fabs (fsub (rows ! k_index_band r ! 0) (k_position r)) = NaN
        \<or> (\<forall>j<length rows. fge (fabs (fsub (rows ! j ! 0) (k_position r)))
                                (fabs (fsub (rows ! k_index_band r ! 0) (k_position r)))))
    \<and> (let band_energies_at_k = drop 1 (rows ! k_index_band r);
            keys = band_keys band_energies_at_k
        in dirac_bands r = select_dirac_bands band_energies_at_k
         \<and> length (dirac_bands r) = min 2 (length band_energies_at_k)
         \<and> distinct (dirac_bands r)
         \<and> (\<forall>s\<in>set (dirac_bands r). s < length band_energies_at_k
              \<and> (\<forall>t<length band_energies_at_k.
                    t \<notin> set (dirac_bands r) \<longrightarrow> sort_le (keys ! s) (keys ! t)))
         \<and> (\<forall>j<length band_energies_at_k.
               band_energies_at_k ! j = Fin 0
               \<and> (\<forall>t<length band_energies_at_k.
                     t \<noteq> j \<longrightarrow> flt (Fin 0) (fabs (band_energies_at_k ! t)))
               \<longrightarrow> j \<in> set (dirac_bands r)))"
proof -
  from analyze_dirac_cone_returns [OF assms, of fs] obtain kp out2 i where
    near: "nearest_index (map (\<lambda>r. r ! 0) rows) kp = Inr i" and i: "i < length rows"
    and minimal: "fabs (fsub (rows ! i ! 0) kp) = NaN
        \<or> (\<forall>j<length rows. fge (fabs (fsub (rows ! j ! 0) kp)) (fabs (fsub (rows ! i ! 0) kp)))"
    and res: "analyze_dirac_cone fs (Array2 ncols rows) =
        Inr (\<lparr> k_position = kp, k_index_band = i,
               start_idx = start_idx_of i, end_idx = end_idx_of (length rows) i,
               k_window = slice (map (\<lambda>r. r ! 0) rows) (start_idx_of i) (end_idx_of (length rows) i),
               e_window = slice (map (drop 1) rows) (start_idx_of i) (end_idx_of (length rows) i),
               dirac_bands = select_dirac_bands (drop 1 (rows ! i)) \<rparr>,
             snd (read_klabels fs ''KLABELS'') @ out2
               @ [Print_dirac_bands (select_dirac_bands (drop 1 (rows ! i)))])"
    by blast
  note spec = select_dirac_bands_spec [where row = "drop 1 (rows ! i)"]
  have sorted: "\<forall>s\<in>set (select_dirac_bands (drop 1 (rows ! i))).
      s < length (drop 1 (rows ! i))
      \<and> (\<forall>t<length (drop 1 (rows ! i)).
            t \<notin> set (select_dirac_bands (drop 1 (rows ! i)))
            \<longrightarrow> sort_le (band_keys (drop 1 (rows ! i)) ! s) (band_keys (drop 1 (rows ! i)) ! t))"
    using spec(3,4) by blast
  have zero: "\<forall>j<length (drop 1 (rows ! i)).
      drop 1 (rows ! i) ! j = Fin 0
      \<and> (\<forall>t<length (drop 1 (rows ! i)). t \<noteq> j \<longrightarrow> flt (Fin 0) (fabs (drop 1 (rows ! i) ! t)))
      \<longrightarrow> j \<in> set (select_dirac_bands (drop 1 (rows ! i)))"
    using spec(5) by blast
  show ?thesis
    unfolding res Let_def
    using near i minimal spec(1,2) sorted zero by simp
qed

theorem dirac_bands_nearest_to_fermi_witness:
  "example_band_rows \<noteq> [] \<and> (0::nat) < 4
   \<and> analyze_dirac_cone no_files (Array2 4 example_band_rows) =
     Inr (\<lparr> k_position = Fin 1, k_index_band = 2, start_idx = 0, end_idx = 5,
            k_window = [Fin 0, Fin (1 / 2), Fin 1, Fin (3 / 2), Fin 2],
            e_window = map (drop 1) example_band_rows,
            dirac_bands = [1, 0] \<rparr>,
          [Warn_klabels_not_found, Warn_no_sym_points, Print_dirac_bands [1, 0]])
   \<and> drop 1 (example_band_rows ! 2) = [Fin (- 1 / 2), Fin 0, Fin (3 / 2)]"
proof -
  have h1: "example_band_rows \<noteq> []" by (simp add: example_band_rows_def)
  have h2: "(0::nat) < 4" by simp
  have row: "drop 1 (example_band_rows ! 2) = [Fin (- 1 / 2), Fin 0, Fin (3 / 2)]"
    by (simp add: example_band_rows_def)
  show ?thesis
    using h1 h2 row analyze_example_table
      dirac_bands_nearest_to_fermi [OF h1 h2, of no_files]
    by simp
qed

text \<open>
  Claim C9. For every index \<open>i\<close> of a sample, the first and the last one included, the
  bounds of the window are \<open>max(0, i - 50)\<close> and \<open>min(n, i + 50)\<close> and lie within the
  table, with the sample itself inside; and in every run on a band table the two
  windows are exactly the rows from the first bound up to, and without, the second
  one, so that no row outside of the table is read.
\<close>

theorem dirac_window_clipped:
  assumes "rows \<noteq> []" and "0 < ncols"
  shows "(\<forall>n i. i < n \<longrightarrow>
            start_idx_of i = max 0 (int i - 50) \<and> end_idx_of n i = min (int n) (int i + 50)
          \<and> 0 \<le> start_idx_of i \<and> start_idx_of i \<le> int i \<and> int i < end_idx_of n i
          \<and> end_idx_of n i \<le> int n)
    \<and> (\<exists>r out. analyze_dirac_cone fs (Array2 ncols rows) = Inr (r, out)
          \<and> k_index_band r < length rows
          \<and> start_idx r = max 0 (int (k_index_band r) - 50)
          \<and> end_idx r = min (int (length rows)) (int (k_index_band r) + 50)
          \<and> 0 \<le> start_idx r \<and> start_idx r \<le> int (k_index_band r)
          \<and> int (k_index_band r) < end_idx r \<and> end_idx r \<le> int (length rows)
          \<and> k_window r = map (\<lambda>j. rows ! j ! 0) [nat (start_idx r)..<nat (end_idx r)]
          \<and> e_window r = map (\<lambda>j. drop 1 (rows ! j)) [nat (start_idx r)..<nat (end_idx r)])"
proof (intro conjI allI impI)
  fix n i :: nat
  assume "i < n"
  from window_bounds [OF this]
  show "start_idx_of i = max 0 (int i - 50)" "end_idx_of n i = min (int n) (int i + 50)"
    "0 \<le> start_idx_of i" "start_idx_of i \<le> int i" "int i < end_idx_of n i"
    "end_idx_of n i \<le> int n"
    by simp_all
next
  from analyze_dirac_cone_returns [OF assms, of fs] obtain kp out2 i where
    i: "i < length rows"
    and res: "analyze_dirac_cone fs (Array2 ncols rows) =
        Inr (\<lparr> k_position = kp, k_index_band = i,
               start_idx = start_idx_of i, end_idx = end_idx_of (length rows) i,
               k_window = slice (map (\<lambda>r. r ! 0) rows) (start_idx_of i) (end_idx_of (length rows) i),
               e_window = slice (map (drop 1) rows) (start_idx_of i) (end_idx_of (length rows) i),
               dirac_bands = select_dirac_bands (drop 1 (rows ! i)) \<rparr>,
             snd (read_klabels fs ''KLABELS'') @ out2
               @ [Print_dirac_bands (select_dirac_bands (drop 1 (rows ! i)))])"
    by blast
  note b = window_bounds [OF i]
  have le: "start_idx_of i \<le> end_idx_of (length rows) i" using b by linarith
  have up: "\<forall>j\<in>set [nat (start_idx_of i)..<nat (end_idx_of (length rows) i)]. j < length rows"
    using b by auto
  have kw: "slice (map (\<lambda>r. r ! 0) rows) (start_idx_of i) (end_idx_of (length rows) i)
      = map (\<lambda>j. rows ! j ! 0) [nat (start_idx_of i)..<nat (end_idx_of (length rows) i)]"
    using b le up by (subst slice_nth) simp_all
  have ew: "slice (map (drop 1) rows) (start_idx_of i) (end_idx_of (length rows) i)
      = map (\<lambda>j. drop 1 (rows ! j)) [nat (start_idx_of i)..<nat (end_idx_of (length rows) i)]"
    using b le up by (subst slice_nth) simp_all
  show "\<exists>r out. analyze_dirac_cone fs (Array2 ncols rows) = Inr (r, out)
          \<and> k_index_band r < length rows
          \<and> start_idx r = max 0 (int (k_index_band r) - 50)
          \<and> end_idx r = min (int (length rows)) (int (k_index_band r) + 50)
          \<and> 0 \<le> start_idx r \<and> start_idx r \<le> int (k_index_band r)
          \<and> int (k_index_band r) < end_idx r \<and> end_idx r \<le> int (length rows)
          \<and> k_window r = map (\<lambda>j. rows ! j ! 0) [nat (start_idx r)..<nat (end_idx r)]
          \<and> e_window r = map (\<lambda>j. drop 1 (rows ! j)) [nat (start_idx r)..<nat (end_idx r)]"
    unfolding res using i b kw ew by simp
qed

theorem dirac_window_clipped_witness:
  "example_band_rows \<noteq> [] \<and> (0::nat) < 4
   \<and> analyze_dirac_cone klabels_at_end (Array2 4 example_band_rows) =
     Inr (\<lparr> k_position = Fin 2, k_index_band = 4, start_idx = 0, end_idx = 5,
            k_window = [Fin 0, Fin (1 / 2), Fin 1, Fin (3 / 2), Fin 2],
            e_window = map (drop 1) example_band_rows,
            dirac_bands = [1, 0] \<rparr>,
          [Print_dirac_bands [1, 0]])
   \<and> start_idx_of 4 = 0 \<and> end_idx_of 5 4 = 5 \<and> start_idx_of 0 = 0 \<and> end_idx_of 5 0 = 5"
proof -
  have h1: "example_band_rows \<noteq> []" by (simp add: example_band_rows_def)
  have h2: "(0::nat) < 4" by simp
  show ?thesis
    using h1 h2 analyze_example_table_at_end
      dirac_window_clipped [OF h1 h2, of klabels_at_end]
    by (simp add: start_idx_of_def end_idx_of_def window_def)
qed

text \<open>
  Claim C7. A label file that is missing or empty makes \<open>read_klabels\<close> return two empty
  lists; it cannot raise. The caller then warns and takes the midpoint of the path,
  \<open>(k_points[0] + k_points[-1]) / 2\<close>, as the target position, and goes on to the end.
\<close>

theorem empty_klabels_uses_path_midpoint:
  assumes "fs ''KLABELS'' = Missing \<or> fs ''KLABELS'' = Text []"
    and "rows \<noteq> []" and "0 < ncols"
  shows "(\<forall>f. fs f = Missing \<or> fs f = Text [] \<longrightarrow> fst (read_klabels fs f) = ([], []))
    \<and> (\<exists>r out. analyze_dirac_cone fs (Array2 ncols rows) = Inr (r, out)
          \<and> k_position r = fhalf (fadd (hd rows ! 0) (last rows ! 0))
          \<and> Warn_no_sym_points \<in> set out)"
proof (intro conjI allI impI)
  show empty: "fst (read_klabels fs f) = ([], [])" if "fs f = Missing \<or> fs f = Text []" for f
    using that
    by (auto simp: read_klabels_def path_exists_def read_text_def klabels_of_lines_def
        readlines_def header_start_def skip_blank_def)
  from analyze_dirac_cone_returns [OF assms(2,3), of fs] obtain kp out2 i where
    kp: "k_position_of (fst (fst (read_klabels fs ''KLABELS'')))
           (snd (fst (read_klabels fs ''KLABELS''))) (map (\<lambda>r. r ! 0) rows) = Inr (kp, out2)"
    and res: "analyze_dirac_cone fs (Array2 ncols rows) =
        Inr (\<lparr> k_position = kp, k_index_band = i,
               start_idx = start_idx_of i, end_idx = end_idx_of (length rows) i,
               k_window = slice (map (\<lambda>r. r ! 0) rows) (start_idx_of i) (end_idx_of (length rows) i),
               e_window = slice (map (drop 1) rows) (start_idx_of i) (end_idx_of (length rows) i),
               dirac_bands = select_dirac_bands (drop 1 (rows ! i)) \<rparr>,
             snd (read_klabels fs ''KLABELS'') @ out2
               @ [Print_dirac_bands (select_dirac_bands (drop 1 (rows ! i)))])"
    by blast
  have "k_position_of [] [] (map (\<lambda>r. r ! 0) rows) = Inr (kp, out2)"
    using kp empty [OF assms(1)] by simp
  then have "kp = fhalf (fadd (hd rows ! 0) (last rows ! 0))" and "out2 = [Warn_no_sym_points]"
    using assms(2) by (simp_all add: k_position_of_def hd_map last_map)
  then show "\<exists>r out. analyze_dirac_cone fs (Array2 ncols rows) = Inr (r, out)
          \<and> k_position r = fhalf (fadd (hd rows ! 0) (last rows ! 0))
          \<and> Warn_no_sym_points \<in> set out"
    unfolding res by simp
qed

theorem empty_klabels_uses_path_midpoint_witness:
  "(no_files ''KLABELS'' = Missing \<or> no_files ''KLABELS'' = Text [])
   \<and> example_band_rows \<noteq> [] \<and> (0::nat) < 4
   \<and> read_klabels no_files ''KLABELS'' = (([], []), [Warn_klabels_not_found])
   \<and> fhalf (fadd (hd example_band_rows ! 0) (last example_band_rows ! 0)) = Fin 1
   \<and> analyze_dirac_cone no_files (Array2 4 example_band_rows) =
     Inr (\<lparr> k_position = Fin 1, k_index_band = 2, start_idx = 0, end_idx = 5,
            k_window = [Fin 0, Fin (1 / 2), Fin 1, Fin (3 / 2), Fin 2],
            e_window = map (drop 1) example_band_rows,
            dirac_bands = [1, 0] \<rparr>,
          [Warn_klabels_not_found, Warn_no_sym_points, Print_dirac_bands [1, 0]])"
proof -
  have h0: "no_files ''KLABELS'' = Missing \<or> no_files ''KLABELS'' = Text []"
    by (simp add: no_files_def)
  have h1: "example_band_rows \<noteq> []" by (simp add: example_band_rows_def)
  have h2: "(0::nat) < 4" by simp
  have rk: "read_klabels no_files ''KLABELS'' = (([], []), [Warn_klabels_not_found])"
    by (simp add: read_klabels_def path_exists_def no_files_def)
  have mid: "fhalf (fadd (hd example_band_rows ! 0) (last example_band_rows ! 0)) = Fin 1"
    by (simp add: example_band_rows_def of_real_ovf_small)
  show ?thesis
    using h0 h1 h2 rk mid analyze_example_table
      empty_klabels_uses_path_midpoint [where fs = no_files, OF h0 h1 h2]
    by simp
qed

section \<open>The cutoff sweep: \<open>analyze_encut_convergence\<close>\<close>

lemma encut_path_eval:
  "encut_outcar_path 200 = ''Encut_200/OUTCAR''"
  "encut_outcar_path 250 = ''Encut_250/OUTCAR''"
  "encut_outcar_path 300 = ''Encut_300/OUTCAR''"
  "encut_outcar_path 350 = ''Encut_350/OUTCAR''"
  "encut_outcar_path 400 = ''Encut_400/OUTCAR''"
  "encut_outcar_path 450 = ''Encut_450/OUTCAR''"
  "encut_outcar_path 500 = ''Encut_500/OUTCAR''"
  "encut_outcar_path 550 = ''Encut_550/OUTCAR''"
  by (simp_all add: encut_outcar_path_def str_of_nat.simps char_of_def bit_Suc_0_iff)



lemma length_np_diff [simp]: "length (np_diff xs) = length xs - 1"
  by (induction xs rule: np_diff.induct) simp_all







lemma extract_energy_lines_no_marker:
  "\<forall>line\<in>set lines. \<not> contains toten_marker line \<Longrightarrow> extract_energy_lines lines = Inr None"
  by (induction lines) simp_all

lemma encut_loop_prefix:
  assumes "\<forall>v\<in>set pre. fs (encut_outcar_path v) = Missing
             \<or> (\<exists>e. extract_energy_from_outcar fs (encut_outcar_path v) = Inr (Some e))"
  shows "\<exists>energies' out'. encut_loop fs (pre @ rest) energies out = encut_loop fs rest energies' out'"
  using assms
proof (induction pre arbitrary: energies out)
  case Nil
  show ?case by auto
next
  case (Cons v pre)
  show ?case
  proof (cases "path_exists fs (encut_outcar_path v)")
    case False
    then show ?thesis using Cons.IH [of "energies @ [NaN]"] Cons.prems by simp
  next
    case True
    with Cons.prems obtain e where
      "extract_energy_from_outcar fs (encut_outcar_path v) = Inr (Some e)"
      by (auto simp: path_exists_def)
    then show ?thesis using True Cons.IH [of "energies @ [e]"] Cons.prems by simp
  qed
qed



text \<open>
  Claim C10. When the OUTCAR file of a cutoff exists but has no line with the energy,
  \<open>extract_energy_from_outcar\<close> returns \<open>None\<close>; when the sweep reaches that cutoff (the
  files of the cutoffs before it being missing or giving an energy), formatting the
  energy raises TypeError, which ends the function. For a missing file the loop instead
  appends NaN and goes on.
\<close>

theorem encut_outcar_without_energy_raises:
  assumes "fs (encut_outcar_path encut) = Text content"
    and "\<forall>line\<in>set (readlines content). \<not> contains toten_marker line"
    and "\<forall>v\<in>set pre. fs (encut_outcar_path v) = Missing
             \<or> (\<exists>e. extract_energy_from_outcar fs (encut_outcar_path v) = Inr (Some e))"
  shows "extract_energy_from_outcar fs (encut_outcar_path encut) = Inr None
       \<and> analyze_encut_convergence_for (pre @ encut # post) fs = Inl TypeError
       \<and> encut_loop (fs(encut_outcar_path encut := Missing)) (encut # post) energies out
           = encut_loop (fs(encut_outcar_path encut := Missing)) post
               (energies @ [NaN]) (out @ [Print_outcar_not_found encut])"
proof (intro conjI)
  show none: "extract_energy_from_outcar fs (encut_outcar_path encut) = Inr None"
    using assms(1,2)
    by (simp add: extract_energy_from_outcar_def read_text_def extract_energy_lines_no_marker)
  have ex: "path_exists fs (encut_outcar_path encut)"
    using assms(1) by (simp add: path_exists_def)
  from encut_loop_prefix [OF assms(3), of "encut # post" "[]" "[]"] obtain energies' out' where
    "encut_loop fs (pre @ encut # post) [] [] = encut_loop fs (encut # post) energies' out'"
    by blast
  also have "\<dots> = Inl TypeError" using none ex by simp
  finally show "analyze_encut_convergence_for (pre @ encut # post) fs = Inl TypeError"
    by (simp add: analyze_encut_convergence_for_def)
  show "encut_loop (fs(encut_outcar_path encut := Missing)) (encut # post) energies out
           = encut_loop (fs(encut_outcar_path encut := Missing)) post
               (energies @ [NaN]) (out @ [Print_outcar_not_found encut])"
    by (simp add: path_exists_def)
qed

theorem encut_outcar_without_energy_raises_witness:
  "encut_no_toten_fs (encut_outcar_path 250) = Text '' General timing and accounting\<newline>''
   \<and> extract_energy_from_outcar encut_no_toten_fs (encut_outcar_path 200) = Inr (Some (Fin (- 10)))
   \<and> extract_energy_from_outcar encut_no_toten_fs (encut_outcar_path 250) = Inr None
   \<and> analyze_encut_convergence encut_no_toten_fs = Inl TypeError"
proof -
  have h1: "encut_no_toten_fs (encut_outcar_path 250) = Text '' General timing and accounting\<newline>''"
    by (simp add: encut_path_eval encut_no_toten_fs_def)
  have h2: "\<forall>line\<in>set (readlines '' General timing and accounting\<newline>'').
              \<not> contains toten_marker line"
    by (simp add: readlines_def toten_marker_def)
  have e200: "extract_energy_from_outcar encut_no_toten_fs (encut_outcar_path 200)
                = Inr (Some (Fin (- 10)))"
    by (simp add: encut_path_eval extract_energy_from_outcar_def read_text_def
        encut_no_toten_fs_def toten_marker_def text_eval of_real_ovf_small)
  have h3: "\<forall>v\<in>set [200]. encut_no_toten_fs (encut_outcar_path v) = Missing
             \<or> (\<exists>e. extract_energy_from_outcar encut_no_toten_fs (encut_outcar_path v)
                       = Inr (Some e))"
    using e200 by simp
  show ?thesis
    using h1 e200
      encut_outcar_without_energy_raises [OF h1 h2 h3, of "[300, 350, 400, 450, 500, 550]"]
    by (simp add: analyze_encut_convergence_def encut_values_def)
qed

section \<open>The k-point sweep: \<open>plot_kpoints_convergence\<close>\<close>

lemma find_converged_first:
  assumes "length ks = length ds" "i < length ds" "flt (ds ! i) threshold"
    "\<forall>j<i. \<not> flt (ds ! j) threshold"
  shows "find_converged ks ds = Some (ks ! i)"
  using assms
proof (induction ks ds arbitrary: i rule: find_converged.induct)
  case (1 k ks d ds)
  show ?case
  proof (cases i)
    case 0
    with "1.prems" show ?thesis by simp
  next
    case (Suc i')
    with "1.prems" have nd: "\<not> flt d threshold" by auto
    have "find_converged ks ds = Some (ks ! i')"
      using "1.prems" Suc nd by (intro "1.IH") auto
    with nd Suc show ?thesis by simp
  qed
qed simp_all

lemma find_converged_exists:
  assumes "length ks = length ds" "i < length ds" "flt (ds ! i) threshold"
  shows "\<exists>j\<le>i. find_converged ks ds = Some (ks ! j)"
proof -
  define m where "m = (LEAST j. flt (ds ! j) threshold)"
  have m: "flt (ds ! m) threshold" unfolding m_def using assms(3) by (rule LeastI)
  have le: "m \<le> i" unfolding m_def using assms(3) by (rule Least_le)
  have first: "\<forall>j<m. \<not> flt (ds ! j) threshold"
    unfolding m_def using not_less_Least by blast
  have "find_converged ks ds = Some (ks ! m)"
    using assms(1,2) le m first by (intro find_converged_first) auto
  with le show ?thesis by blast
qed

lemma fsub_self: "fsub (Fin x) (Fin x) = Fin 0"
  by (simp add: fsub_def of_real_ovf_small)

lemma flt_zero_threshold: "flt (Fin 0) threshold"
  by (simp add: threshold_def)

lemma last_sort_key_max:
  assumes "xs \<noteq> []" "p \<in> set xs"
  shows "fst p \<le> fst (last (sort_key fst xs))"
proof -
  let ?s = "sort_key fst xs"
  have ne: "?s \<noteq> []" using assms(1) by (metis length_0_conv length_sort)
  have "p \<in> set ?s" using assms(2) by simp
  then obtain i where i: "i < length ?s" "?s ! i = p" unfolding in_set_conv_nth by blast
  have "sorted (map fst ?s)" by (rule sorted_sort_key)
  then have "map fst ?s ! i \<le> map fst ?s ! (length ?s - 1)"
    using i(1) by (intro sorted_nth_mono) auto
  then show ?thesis using i ne by (simp add: last_conv_nth)
qed

lemma convergence_analysis_finite_reference:
  assumes "results \<noteq> []" "snd (last (sort_key fst results)) = Fin x"
  shows "last (energy_differences_of (map snd (sort_key fst results))) = Fin 0"
    and "\<exists>k. convergence_analysis results
            = (Some k, Print_analysis_header # map (\<lambda>(k, d). Print_difference k d)
                          (zip (map fst (sort_key fst results))
                               (energy_differences_of (map snd (sort_key fst results))))
                       @ [Print_convergence_point k])
           \<and> k \<in> fst ` set results"
proof -
  let ?s = "sort_key fst results"
  let ?ks = "map fst ?s"
  let ?es = "map snd ?s"
  let ?ds = "energy_differences_of ?es"
  have ne: "?s \<noteq> []" using assms(1) by (metis length_0_conv length_sort)
  have ref: "last ?es = Fin x" using assms(2) ne by (simp add: last_map)
  have len: "length ?ds = length ?s" by (simp add: energy_differences_of_def)
  have dne: "?ds \<noteq> []" using ne len by (metis length_0_conv)
  show last0: "last ?ds = Fin 0"
    using ne ref by (simp add: energy_differences_of_def last_map fsub_self)
  have "?ds ! (length ?ds - 1) = Fin 0" using last0 dne by (simp add: last_conv_nth)
  then have "flt (?ds ! (length ?ds - 1)) threshold" by (simp add: flt_zero_threshold)
  moreover have "length ?ks = length ?ds" using len by simp
  moreover have "length ?ds - 1 < length ?ds" using dne by simp
  ultimately obtain j where j: "j \<le> length ?ds - 1" "find_converged ?ks ?ds = Some (?ks ! j)"
    using find_converged_exists [of ?ks ?ds "length ?ds - 1"] by blast
  have "j < length ?s" using j(1) len dne by (metis One_nat_def Suc_pred le_imp_less_Suc length_greater_0_conv)
  then have "?ks ! j \<in> fst ` set ?s" by (metis length_map nth_mem set_map)
  then have mem: "?ks ! j \<in> fst ` set results" by simp
  show "\<exists>k. convergence_analysis results
            = (Some k, Print_analysis_header # map (\<lambda>(k, d). Print_difference k d) (zip ?ks ?ds)
                       @ [Print_convergence_point k])
           \<and> k \<in> fst ` set results"
    using j(2) mem by (simp add: convergence_analysis_def Let_def)
qed

lemma manual_energy_lines_out:
  "Print_no_convergence_point \<notin> set (snd (manual_energy_lines p lines))"
  by (induction lines) (simp_all add: Let_def split: option.splits)

lemma kpoints_loop_out:
  "Print_no_convergence_point \<notin> set out
   \<Longrightarrow> Print_no_convergence_point \<notin> set (snd (kpoints_loop ase fs dirs results out))"
proof (induction dirs arbitrary: results out)
  case Nil
  then show ?case by simp
next
  case (Cons d dirs)
  have g: "Print_no_convergence_point \<notin> set (snd (get_kpoints_from_folder d))"
    by (simp add: get_kpoints_from_folder_def split: option.splits)
  have e: "Print_no_convergence_point
             \<notin> set (snd (extract_energy_from_outcar_kpoints ase fs (d @ ''/OUTCAR'')))"
    using manual_energy_lines_out
    by (simp add: extract_energy_from_outcar_kpoints_def split: option.splits sum.splits)
  show ?case
    using Cons.prems g e
    by (auto simp: Let_def split: prod.splits option.splits intro!: Cons.IH)
qed

lemmas kpoints_eval = plot_kpoints_convergence_def plot_kpoints_convergence_for_def base_dirs_def
  path_exists_def ase_fails_def get_kpoints_from_folder_def split_on_def py_int_def
  extract_energy_from_outcar_kpoints_def read_text_def toten_marker_def convergence_analysis_def
  energy_differences_of_def threshold_def text_eval float_eval char_of_def bit_Suc_0_iff Let_def

text \<open>
  Claim C5, as amended. The differences are taken against the energy of the largest
  k-point value. When that energy is a finite number, the last difference is exactly
  zero, which is below the threshold, so that with at least one valid result a
  convergence point is declared, one of the tested values, and the line saying that no
  convergence point was found is not printed.
\<close>

theorem kpoints_convergence_declared_for_finite_reference:
  assumes "kpoints_loop ase fs dirs [] [] = (results, out)" and "results \<noteq> []"
    and "snd (last (sort_key fst results)) = Fin x"
  shows "(\<forall>p\<in>set results. fst p \<le> fst (last (sort_key fst results)))
       \<and> last (energy_differences_of (map snd (sort_key fst results))) = Fin 0
       \<and> (\<exists>k. fst (plot_kpoints_convergence_for dirs ase fs) = Some k \<and> k \<in> fst ` set results)
       \<and> Print_no_convergence_point \<notin> set (snd (plot_kpoints_convergence_for dirs ase fs))"
proof -
  from convergence_analysis_finite_reference(2) [OF assms(2,3)] obtain k where
    k: "convergence_analysis results
            = (Some k, Print_analysis_header # map (\<lambda>(k, d). Print_difference k d)
                          (zip (map fst (sort_key fst results))
                               (energy_differences_of (map snd (sort_key fst results))))
                       @ [Print_convergence_point k])"
    and mem: "k \<in> fst ` set results"
    by blast
  have out: "Print_no_convergence_point \<notin> set out"
    using kpoints_loop_out [of "[]" ase fs dirs "[]"] assms(1) by simp
  have res: "plot_kpoints_convergence_for dirs ase fs
      = (Some k, out @ Print_analysis_header # map (\<lambda>(k, d). Print_difference k d)
                          (zip (map fst (sort_key fst results))
                               (energy_differences_of (map snd (sort_key fst results))))
                   @ [Print_convergence_point k])"
    using assms(1,2) k by (simp add: plot_kpoints_convergence_for_def)
  show ?thesis
    unfolding res
    using last_sort_key_max [OF assms(2)] convergence_analysis_finite_reference(1) [OF assms(2,3)]
      mem out
    by auto
qed

theorem kpoints_convergence_declared_for_finite_reference_witness:
  "kpoints_loop ase_fails kpoints_example_fs base_dirs [] []
     = ([(3, Fin (- (184 / 10))), (5, Fin (- (1845 / 100)))],
        [Print_kpoints_energy 3 (Fin (- (184 / 10))), Print_kpoints_energy 5 (Fin (- (1845 / 100)))])
   \<and> snd (last (sort_key fst [(3::int, Fin (- (184 / 10))), (5, Fin (- (1845 / 100)))]))
       = Fin (- (1845 / 100))
   \<and> plot_kpoints_convergence ase_fails kpoints_example_fs
       = (Some 5, [Print_kpoints_energy 3 (Fin (- (184 / 10))),
                   Print_kpoints_energy 5 (Fin (- (1845 / 100))),
                   Print_analysis_header,
                   Print_difference 3 (Fin (5 / 100)), Print_difference 5 (Fin 0),
                   Print_convergence_point 5])"
proof -
  have h1: "kpoints_loop ase_fails kpoints_example_fs base_dirs [] []
     = ([(3, Fin (- (184 / 10))), (5, Fin (- (1845 / 100)))],
        [Print_kpoints_energy 3 (Fin (- (184 / 10))), Print_kpoints_energy 5 (Fin (- (1845 / 100)))])"
    by (simp add: kpoints_eval kpoints_example_fs_def)
  have h2: "[(3::int, Fin (- (184 / 10))), (5, Fin (- (1845 / 100)))] \<noteq> []" by simp
  have h3: "snd (last (sort_key fst [(3::int, Fin (- (184 / 10))), (5, Fin (- (1845 / 100)))]))
       = Fin (- (1845 / 100))"
    by simp
  have e: "plot_kpoints_convergence ase_fails kpoints_example_fs
       = (Some 5, [Print_kpoints_energy 3 (Fin (- (184 / 10))),
                   Print_kpoints_energy 5 (Fin (- (1845 / 100))),
                   Print_analysis_header,
                   Print_difference 3 (Fin (5 / 100)), Print_difference 5 (Fin 0),
                   Print_convergence_point 5])"
    by (simp add: kpoints_eval kpoints_example_fs_def)
  show ?thesis
    using h1 h3 e kpoints_convergence_declared_for_finite_reference [OF h1 h2 h3]
    by simp
qed

text \<open>
  Claim C5 as it is stated fails: \<open>float\<close> reads \<open>NaN\<close> from the OUTCAR line, the result
  is valid for the script (it is not \<open>None\<close>), the difference of the only entry to itself
  is NaN, which is not below the threshold, and the script prints that no convergence
  point was found.
\<close>

theorem kpoints_no_convergence_for_nan_reference:
  "kpoints_loop ase_fails kpoints_nan_fs base_dirs [] [] = ([(3, NaN)], [Print_kpoints_energy 3 NaN])
   \<and> plot_kpoints_convergence ase_fails kpoints_nan_fs
       = (None, [Print_kpoints_energy 3 NaN, Print_analysis_header, Print_difference 3 NaN,
                 Print_no_convergence_point])"
  by (simp add: kpoints_eval kpoints_nan_fs_def)

section \<open>The Fermi energy: \<open>extract_fermi_energy\<close>\<close>





















section \<open>The columns of the projected density of states\<close>

text \<open>
  Claim C2. On a two-dimensional table the choice of the columns depends on the number
  of columns only: with 9 columns (with 8 or more) the channels s, px, py, pz are the
  columns 1, 3, 5, 7; with 5 columns (with 5 to 7) they are the columns 1, 2, 3, 4; with
  3 columns (with fewer than 5) they are four arrays of zeros as long as the energy
  column, and a warning is printed; nothing is raised.
\<close>

theorem pdos_layout_by_column_count:
  "select_pdos_channels (Array2 9 rows)
     = Inr (map (\<lambda>r. r ! 0) rows,
            \<lparr> s_dos = map (\<lambda>r. r ! 1) rows, px_dos = map (\<lambda>r. r ! 3) rows,
              py_dos = map (\<lambda>r. r ! 5) rows, pz_dos = map (\<lambda>r. r ! 7) rows \<rparr>, [])
   \<and> select_pdos_channels (Array2 5 rows)
     = Inr (map (\<lambda>r. r ! 0) rows,
            \<lparr> s_dos = map (\<lambda>r. r ! 1) rows, px_dos = map (\<lambda>r. r ! 2) rows,
              py_dos = map (\<lambda>r. r ! 3) rows, pz_dos = map (\<lambda>r. r ! 4) rows \<rparr>, [])
   \<and> select_pdos_channels (Array2 3 rows)
     = Inr (map (\<lambda>r. r ! 0) rows,
            \<lparr> s_dos = replicate (length rows) (Fin 0), px_dos = replicate (length rows) (Fin 0),
              py_dos = replicate (length rows) (Fin 0), pz_dos = replicate (length rows) (Fin 0) \<rparr>,
            [Warn_pdos_too_few_columns])
   \<and> (\<forall>ncols. 8 \<le> ncols \<longrightarrow> select_pdos_channels (Array2 ncols rows)
     = Inr (map (\<lambda>r. r ! 0) rows,
            \<lparr> s_dos = map (\<lambda>r. r ! 1) rows, px_dos = map (\<lambda>r. r ! 3) rows,
              py_dos = map (\<lambda>r. r ! 5) rows, pz_dos = map (\<lambda>r. r ! 7) rows \<rparr>, []))
   \<and> (\<forall>ncols. 5 \<le> ncols \<and> ncols < 8 \<longrightarrow> select_pdos_channels (Array2 ncols rows)
     = Inr (map (\<lambda>r. r ! 0) rows,
            \<lparr> s_dos = map (\<lambda>r. r ! 1) rows, px_dos = map (\<lambda>r. r ! 2) rows,
              py_dos = map (\<lambda>r. r ! 3) rows, pz_dos = map (\<lambda>r. r ! 4) rows \<rparr>, []))
   \<and> (\<forall>ncols. 0 < ncols \<and> ncols < 5 \<longrightarrow> select_pdos_channels (Array2 ncols rows)
     = Inr (map (\<lambda>r. r ! 0) rows,
            \<lparr> s_dos = replicate (length rows) (Fin 0), px_dos = replicate (length rows) (Fin 0),
              py_dos = replicate (length rows) (Fin 0), pz_dos = replicate (length rows) (Fin 0) \<rparr>,
            [Warn_pdos_too_few_columns]))"
  by (simp add: select_pdos_channels_def pdos_try_body_def shape1_def take_columns_def
      column_def zero_channels_def zeros_like_def)

theorem pdos_layout_by_column_count_witness:
  "(8::nat) \<le> 9
   \<and> select_pdos_channels (Array2 9 example_pdos_rows)
     = Inr ([Fin (- 1), Fin 0],
            \<lparr> s_dos = [Fin 1, Fin 11], px_dos = [Fin 3, Fin 13],
              py_dos = [Fin 5, Fin 15], pz_dos = [Fin 7, Fin 17] \<rparr>, [])"
proof -
  have h: "(8::nat) \<le> 9" by simp
  have e: "map (\<lambda>r. r ! 0) example_pdos_rows = [Fin (- 1), Fin 0]"
    "map (\<lambda>r. r ! 1) example_pdos_rows = [Fin 1, Fin 11]"
    "map (\<lambda>r. r ! 3) example_pdos_rows = [Fin 3, Fin 13]"
    "map (\<lambda>r. r ! 5) example_pdos_rows = [Fin 5, Fin 15]"
    "map (\<lambda>r. r ! 7) example_pdos_rows = [Fin 7, Fin 17]"
    by (simp_all add: example_pdos_rows_def)
  show ?thesis
    using h e pdos_layout_by_column_count [of example_pdos_rows]
    by simp
qed

end
